theory Spec2Isabelle
  imports Main
begin

section \<open>Data model of pyfr/backends/base/types.py\<close>

text \<open>
  The exceptions the module can raise, explicitly (\<open>raise\<close>) or through an
  out-of-range subscript, a failed broadcast or a missing attribute.
\<close>

datatype error =
    ValueError | TypeError | IndexError | RuntimeError | AttributeError | OverflowError

text \<open>Element types of a matrix, with \<open>np.dtype(dtype).itemsize\<close>.\<close>

datatype np_dtype = Float32 | Float64

fun np_itemsize :: "np_dtype \<Rightarrow> int" where
  "np_itemsize Float32 = 4"
| "np_itemsize Float64 = 8"

text \<open>
  A backend, as far as this module reads it: \<open>backend.matrix_cls\<close> is a class,
  named here by a string.
\<close>

record backend =
  backend_name :: string
  matrix_cls :: string

text \<open>
  A matrix object. \<open>MatrixBase.__init__\<close> stores \<open>backend\<close>, \<open>dtype\<close>,
  \<open>itemsize\<close>, \<open>ioshape\<close> and \<open>tags\<close>; the concrete backends add the physical
  layout (\<open>nrow\<close>, \<open>ncol\<close>, \<open>leaddim\<close>, \<open>leadsubdim\<close>) and the place in the
  allocation (\<open>basedata\<close>, \<open>offset\<close>) that the rest of the module reads.
  \<open>mro\<close> lists the names of the object's class and of its base classes, which
  is what \<open>isinstance\<close> inspects. Two records are equal exactly when they
  stand for the same object: \<open>ident\<close> is the object's identity.
\<close>

record matrix =
  ident :: nat
  mro :: "string list"
  mbackend :: backend
  dtype :: np_dtype
  itemsize :: int
  ioshape :: "int list"
  tags :: "string set"
  nrow :: int
  ncol :: int
  leaddim :: int
  leadsubdim :: int
  basedata :: nat
  offset :: int

definition isinstance :: "matrix \<Rightarrow> string \<Rightarrow> bool" where
  "isinstance m c = (c \<in> set (mro m))"

text \<open>The derived properties \<open>pitch\<close> and \<open>traits\<close> of \<open>MatrixBase\<close>.\<close>

definition pitch :: "matrix \<Rightarrow> int" where
  "pitch m = leaddim m * itemsize m"

definition traits :: "matrix \<Rightarrow> int \<times> int \<times> int \<times> np_dtype" where
  "traits m = (nrow m, leaddim m, leadsubdim m, dtype m)"

text \<open>
  Subscripting a Python list: a negative index counts from the end, an index
  outside \<open>-len .. len - 1\<close> raises \<open>IndexError\<close>.
\<close>

definition py_getitem :: "'a list \<Rightarrow> int \<Rightarrow> error + 'a" where
  "py_getitem xs idx =
     (if 0 \<le> idx \<and> idx < int (length xs) then Inr (xs ! nat idx)
      else if idx < 0 \<and> - int (length xs) \<le> idx then Inr (xs ! nat (int (length xs) + idx))
      else Inl IndexError)"

subsection \<open>MatrixRSlice\<close>

record rslice =
  rs_backend :: backend
  rs_parent :: matrix
  rs_nrow :: int
  rs_ncol :: int
  rs_dtype :: np_dtype
  rs_itemsize :: int
  rs_leaddim :: int
  rs_leadsubdim :: int
  rs_tags :: "string set"

definition rslice_init :: "backend \<Rightarrow> matrix \<Rightarrow> int \<Rightarrow> int \<Rightarrow> error + rslice" where
  "rslice_init be mat p q =
     (if p < 0 \<or> q > nrow mat \<or> q < p then Inl ValueError
      else Inr \<lparr>rs_backend = be, rs_parent = mat,
                rs_nrow = q - p, rs_ncol = ncol mat,
                rs_dtype = dtype mat, rs_itemsize = itemsize mat,
                rs_leaddim = leaddim mat, rs_leadsubdim = leadsubdim mat,
                rs_tags = tags mat \<union> {''slice''}\<rparr>)"

definition rs_pitch :: "rslice \<Rightarrow> int" where
  "rs_pitch s = rs_leaddim s * rs_itemsize s"

definition rs_traits :: "rslice \<Rightarrow> int \<times> int \<times> int \<times> np_dtype" where
  "rs_traits s = (rs_nrow s, rs_leaddim s, rs_leadsubdim s, rs_dtype s)"

subsection \<open>MatrixBank\<close>

record bank =
  bank_backend :: backend
  bank_tags :: "string set"
  bank_mats :: "matrix list"
  bank_curr_idx :: int
  bank_curr_mat :: matrix

text \<open>
  \<open>MatrixBank.__init__\<close>. The two \<open>any(...)\<close> tests run over \<open>mats[1:]\<close> and
  read \<open>mats[0]\<close> only inside the generator, so they pass on an empty list;
  \<open>mats[0].tags\<close> then raises \<open>IndexError\<close>, as does \<open>mats[initbank]\<close> for
  an index out of range.
\<close>

definition bank_init :: "backend \<Rightarrow> matrix list \<Rightarrow> int \<Rightarrow> string set \<Rightarrow> error + bank" where
  "bank_init be mats initbank tgs =
     (if list_ex (\<lambda>m. traits m \<noteq> traits (hd mats)) (drop 1 mats) then Inl ValueError
      else if list_ex (\<lambda>m. tags m \<noteq> tags (hd mats)) (drop 1 mats) then Inl ValueError
      else (case mats of
              [] \<Rightarrow> Inl IndexError
            | m0 # _ \<Rightarrow>
                (case py_getitem mats initbank of
                   Inl e \<Rightarrow> Inl e
                 | Inr cm \<Rightarrow>
                     Inr \<lparr>bank_backend = be, bank_tags = tgs \<union> tags m0,
                          bank_mats = mats, bank_curr_idx = initbank,
                          bank_curr_mat = cm\<rparr>)))"

definition bank_len :: "bank \<Rightarrow> nat" where
  "bank_len b = length (bank_mats b)"

definition bank_getitem :: "bank \<Rightarrow> int \<Rightarrow> error + matrix" where
  "bank_getitem b idx = py_getitem (bank_mats b) idx"

text \<open>
  Attribute values. A bound method is named together with its receiver: a
  matrix for \<open>VMethod\<close>, the bank itself for \<open>VBankMethod\<close>.
\<close>

datatype pyval =
    VInt int
  | VShape "int list"
  | VDtype np_dtype
  | VTags "string set"
  | VTraits "int \<times> int \<times> int \<times> np_dtype"
  | VBackend backend
  | VAlloc nat
  | VMatrix matrix
  | VMatrices "matrix list"
  | VStr string
  | VMethod string matrix
  | VBankMethod string bank
  | VObject string

text \<open>
  Attribute lookup on a matrix object: the properties \<open>pitch\<close> and \<open>traits\<close>
  of \<open>MatrixBase\<close>, then the instance attributes, then whatever else the
  class of the object and its base classes provide (\<open>_base_tags\<close>, the
  methods, \<open>__doc__\<close>, the names of \<open>object\<close>, ...). The class of a matrix is a
  backend's class, so that last part is the argument \<open>mcls\<close>: \<open>mcls m a\<close> is
  the value found for the name \<open>a\<close> on the class of \<open>m\<close>, if any. A name found
  nowhere raises \<open>AttributeError\<close>.
\<close>

definition matrix_getattr ::
  "(matrix \<Rightarrow> string \<Rightarrow> pyval option) \<Rightarrow> matrix \<Rightarrow> string \<Rightarrow> error + pyval" where
  "matrix_getattr mcls m a =
     (if a = ''pitch'' then Inr (VInt (pitch m))
      else if a = ''traits'' then Inr (VTraits (traits m))
      else if a = ''backend'' then Inr (VBackend (mbackend m))
      else if a = ''dtype'' then Inr (VDtype (dtype m))
      else if a = ''itemsize'' then Inr (VInt (itemsize m))
      else if a = ''ioshape'' then Inr (VShape (ioshape m))
      else if a = ''tags'' then Inr (VTags (tags m))
      else if a = ''nrow'' then Inr (VInt (nrow m))
      else if a = ''ncol'' then Inr (VInt (ncol m))
      else if a = ''leaddim'' then Inr (VInt (leaddim m))
      else if a = ''leadsubdim'' then Inr (VInt (leadsubdim m))
      else if a = ''basedata'' then Inr (VAlloc (basedata m))
      else if a = ''offset'' then Inr (VInt (offset m))
      else (case mcls m a of Some v \<Rightarrow> Inr v | None \<Rightarrow> Inl AttributeError))"

text \<open>
  The names the normal lookup finds on a bank. Its instance attributes are
  those assigned in \<open>__init__\<close>. The body of the class \<open>MatrixBank\<close> defines
  its methods, the property \<open>active\<close>, its docstring \<open>__doc__\<close> and, as every
  class statement does, \<open>__module__\<close>. Whatever else the normal lookup finds is
  not written in this file: names inherited from \<open>Sequence\<close> and its bases
  down to \<open>object\<close> (\<open>index\<close>, \<open>count\<close>, \<open>__iter__\<close>, \<open>__class__\<close>, ...), the
  instance's \<open>__dict__\<close>, the bookkeeping of the abstract base classes. That
  is the argument \<open>inh\<close>, with \<open>inh a\<close> what is found for the name \<open>a\<close>, if
  anything, as a function from the bank on which it is looked up to the value
  (a method is bound to that bank). Python calls \<open>__getattr__\<close> only for a
  name that the normal lookup does not find; \<open>bank_defines\<close> says that it
  finds the name.
\<close>

definition bank_instance_attrs :: "string set" where
  "bank_instance_attrs = {''backend'', ''tags'', ''_mats'', ''_curr_idx'', ''_curr_mat''}"

definition bank_methods :: "string set" where
  "bank_methods = {''__init__'', ''__len__'', ''__getitem__'', ''__getattr__'', ''rslice''}"

definition bank_class_attrs :: "string set" where
  "bank_class_attrs = bank_methods \<union> {''active'', ''__doc__'', ''__module__''}"

definition bank_own_attrs :: "string set" where
  "bank_own_attrs = bank_instance_attrs \<union> bank_class_attrs"

definition bank_defines :: "(string \<Rightarrow> (bank \<Rightarrow> pyval) option) \<Rightarrow> string \<Rightarrow> bool" where
  "bank_defines inh a = (a \<in> bank_own_attrs \<or> inh a \<noteq> None)"

definition bank_getattr ::
  "(string \<Rightarrow> (bank \<Rightarrow> pyval) option) \<Rightarrow> (matrix \<Rightarrow> string \<Rightarrow> pyval option)
     \<Rightarrow> bank \<Rightarrow> string \<Rightarrow> error + pyval" where
  "bank_getattr inh mcls b a =
     (if a = ''active'' then Inr (VInt (bank_curr_idx b))
      else if a = ''backend'' then Inr (VBackend (bank_backend b))
      else if a = ''tags'' then Inr (VTags (bank_tags b))
      else if a = ''_mats'' then Inr (VMatrices (bank_mats b))
      else if a = ''_curr_idx'' then Inr (VInt (bank_curr_idx b))
      else if a = ''_curr_mat'' then Inr (VMatrix (bank_curr_mat b))
      else if a = ''__doc__'' then Inr (VStr ''Matrix bank abstract base class'')
      else if a = ''__module__'' then Inr (VStr ''pyfr.backends.base.types'')
      else if a \<in> bank_methods then Inr (VBankMethod a b)
      else (case inh a of
              Some d \<Rightarrow> Inr (d b)
            | None \<Rightarrow> matrix_getattr mcls (bank_curr_mat b) a))"

text \<open>
  \<open>MatrixBank.rslice\<close> raises unconditionally; the bank is returned beside
  the result to show what the call leaves behind.
\<close>

definition bank_rslice :: "bank \<Rightarrow> int \<Rightarrow> int \<Rightarrow> bank \<times> (error + rslice)" where
  "bank_rslice b p q = (b, Inl RuntimeError)"

definition bank_active :: "bank \<Rightarrow> int" where
  "bank_active b = bank_curr_idx b"

text \<open>
  The setter of \<open>active\<close>: \<open>_curr_idx\<close> is assigned first, then \<open>_mats[idx]\<close> is
  read. When the subscript raises, the first assignment has already happened.
  The result is the bank after the call and the exception, if any.
\<close>

definition bank_set_active :: "bank \<Rightarrow> int \<Rightarrow> bank \<times> error option" where
  "bank_set_active b idx =
     (let b1 = b\<lparr>bank_curr_idx := idx\<rparr>
      in case py_getitem (bank_mats b1) idx of
           Inl e \<Rightarrow> (b1, Some e)
         | Inr m \<Rightarrow> (b1\<lparr>bank_curr_mat := m\<rparr>, None))"

subsection \<open>Integer arrays of numpy\<close>

text \<open>
  The signed integer element types, their widths, and the element type of the
  result of an operation on two arrays (the wider of the two). The index and
  stride maps of a view are arrays of one of these types throughout; maps of
  unsigned integers or of floating-point numbers, which numpy promotes by
  other rules, are not covered.
\<close>

datatype idtype = Int8 | Int16 | Int32 | Int64

fun dbits :: "idtype \<Rightarrow> nat" where
  "dbits Int8 = 8"
| "dbits Int16 = 16"
| "dbits Int32 = 32"
| "dbits Int64 = 64"

definition promote :: "idtype \<Rightarrow> idtype \<Rightarrow> idtype" where
  "promote a b = (if dbits a < dbits b then b else a)"

text \<open>
  A value stored in an array of element type \<open>d\<close> is reduced to the two's
  complement range of \<open>d\<close>: array arithmetic wraps around silently.
\<close>

definition wrap :: "idtype \<Rightarrow> int \<Rightarrow> int" where
  "wrap d x = (x + 2 ^ (dbits d - 1)) mod 2 ^ dbits d - 2 ^ (dbits d - 1)"

definition in_range :: "idtype \<Rightarrow> int \<Rightarrow> bool" where
  "in_range d x = (- (2 ^ (dbits d - 1)) \<le> x \<and> x < 2 ^ (dbits d - 1))"

text \<open>A one-dimensional array: element type and contents.\<close>

type_synonym intarr = "idtype \<times> int list"

text \<open>A two-dimensional array of shape \<open>(length a_rows, a_ncols)\<close>.\<close>

record arr2d =
  a_dtype :: idtype
  a_ncols :: nat
  a_rows :: "int list list"

text \<open>The column \<open>a[:, j]\<close>; \<open>j\<close> may be negative, as in \<open>a[:, -1]\<close>.\<close>

definition np_col :: "arr2d \<Rightarrow> int \<Rightarrow> error + intarr" where
  "np_col a j =
     (if 0 \<le> j \<and> j < int (a_ncols a)
        then Inr (a_dtype a, map (\<lambda>r. r ! nat j) (a_rows a))
      else if j < 0 \<and> - int (a_ncols a) \<le> j
        then Inr (a_dtype a, map (\<lambda>r. r ! nat (int (a_ncols a) + j)) (a_rows a))
      else Inl IndexError)"

text \<open>
  Broadcasting of two one-dimensional operands: equal lengths combine
  pointwise, a length of one is stretched, anything else raises
  \<open>ValueError\<close>.
\<close>

definition broadcast2 :: "('a \<Rightarrow> 'b \<Rightarrow> 'c) \<Rightarrow> 'a list \<Rightarrow> 'b list \<Rightarrow> error + 'c list" where
  "broadcast2 f xs ys =
     (if length xs = length ys then Inr (map2 f xs ys)
      else if length xs = 1 then Inr (map (f (hd xs)) ys)
      else if length ys = 1 then Inr (map (\<lambda>x. f x (hd ys)) xs)
      else Inl ValueError)"

definition np_binop :: "(int \<Rightarrow> int \<Rightarrow> int) \<Rightarrow> intarr \<Rightarrow> intarr \<Rightarrow> error + intarr" where
  "np_binop f a b =
     (case broadcast2 (\<lambda>x y. wrap (promote (fst a) (fst b)) (f x y)) (snd a) (snd b) of
        Inl e \<Rightarrow> Inl e
      | Inr zs \<Rightarrow> Inr (promote (fst a) (fst b), zs))"

definition np_add :: "intarr \<Rightarrow> intarr \<Rightarrow> error + intarr" where
  "np_add = np_binop (\<lambda>x y. x + y)"

definition np_mul :: "intarr \<Rightarrow> intarr \<Rightarrow> error + intarr" where
  "np_mul = np_binop (\<lambda>x y. x * y)"

text \<open>Sequencing of steps that may raise.\<close>

definition ebind :: "error + 'a \<Rightarrow> ('a \<Rightarrow> error + 'b) \<Rightarrow> error + 'b" where
  "ebind r f = (case r of Inl e \<Rightarrow> Inl e | Inr v \<Rightarrow> f v)"

subsection \<open>View\<close>

record view =
  view_n :: nat
  view_nvrow :: int
  view_nvcol :: int
  view_mats :: "matrix list"
  view_basedata :: nat
  view_refdtype :: np_dtype
  view_mapping :: intarr
  view_rstrides :: "intarr option"
  view_cstrides :: "intarr option"

definition view_nvrow_of :: "int list \<Rightarrow> int" where
  "view_nvrow_of vshape = (if length vshape = 2 then vshape ! (length vshape - 2) else 1)"

definition view_nvcol_of :: "int list \<Rightarrow> int" where
  "view_nvcol_of vshape = (if length vshape \<ge> 1 then vshape ! (length vshape - 1) else 1)"

text \<open>
  Storing a Python integer into an \<open>int32\<close> array. A value in the range of
  \<open>int32\<close> is stored as it is. For a value outside that range the behaviour
  depends on the version of numpy: numpy 2 raises \<open>OverflowError\<close>
  (\<open>StrictCast\<close>); older versions convert through a 64-bit C integer, which
  raises \<open>OverflowError\<close> outside 64 bits and otherwise keeps the low 32
  bits silently (\<open>LegacyCast\<close>).
\<close>

datatype np_cast = LegacyCast | StrictCast

fun to_int32 :: "np_cast \<Rightarrow> int \<Rightarrow> error + int" where
  "to_int32 StrictCast v = (if in_range Int32 v then Inr v else Inl OverflowError)"
| "to_int32 LegacyCast v =
     (if in_range Int32 v then Inr v
      else if in_range Int64 v then Inr (wrap Int32 v)
      else Inl OverflowError)"

text \<open>
  \<open>arr[np.where(matmap == m)] = v\<close> on an \<open>int32\<close> array \<open>arr\<close> of the length
  of \<open>matmap\<close>: \<open>v\<close> is converted to \<open>int32\<close>, and the entries of the points
  whose matrix is \<open>m\<close> receive it.
\<close>

definition assign_where ::
  "np_cast \<Rightarrow> matrix list \<Rightarrow> matrix \<Rightarrow> int \<Rightarrow> int list \<Rightarrow> error + int list" where
  "assign_where pol matmap m v arr =
     ebind (to_int32 pol v) (\<lambda>w.
     Inr (map2 (\<lambda>x old. if x = m then w else old) matmap arr))"

text \<open>
  The loop over \<open>self._mats\<close> that fills \<open>offset\<close> and \<open>leaddim\<close>. Both start
  as \<open>np.empty(n, dtype=np.int32)\<close>, whose contents are arbitrary; \<open>0\<close> stands
  for them here.
\<close>

definition fill_step ::
  "np_cast \<Rightarrow> matrix list \<Rightarrow> matrix \<Rightarrow> int list \<times> int list
     \<Rightarrow> error + int list \<times> int list" where
  "fill_step pol matmap m s =
     ebind (assign_where pol matmap m (offset m) (fst s)) (\<lambda>off.
     ebind (assign_where pol matmap m (leaddim m) (snd s)) (\<lambda>ld.
     Inr (off, ld)))"

fun fill_loop ::
  "np_cast \<Rightarrow> matrix list \<Rightarrow> matrix list \<Rightarrow> int list \<times> int list
     \<Rightarrow> error + int list \<times> int list" where
  "fill_loop pol matmap [] s = Inr s"
| "fill_loop pol matmap (m # ms) s =
     ebind (fill_step pol matmap m s) (fill_loop pol matmap ms)"

definition fill_offsets ::
  "np_cast \<Rightarrow> matrix list \<Rightarrow> matrix list \<Rightarrow> error + int list \<times> int list" where
  "fill_offsets pol mats matmap =
     fill_loop pol matmap mats
       (replicate (length matmap) 0, replicate (length matmap) 0)"

text \<open>\<open>offset + rcmap[:,0]*leaddim + rcmap[:,1]\<close>, in Python's order of evaluation.\<close>

definition compute_mapping :: "int list \<Rightarrow> int list \<Rightarrow> arr2d \<Rightarrow> error + intarr" where
  "compute_mapping off ld rcmap =
     ebind (np_col rcmap 0) (\<lambda>c0.
     ebind (np_mul c0 (Int32, ld)) (\<lambda>prod.
     ebind (np_add (Int32, off) prod) (\<lambda>s.
     ebind (np_col rcmap 1) (\<lambda>c1.
     np_add s c1))))"

definition compute_rstrides :: "int \<Rightarrow> int list \<Rightarrow> arr2d \<Rightarrow> error + intarr option" where
  "compute_rstrides nvrow ld stridemap =
     (if nvrow > 1
      then ebind (np_col stridemap 0) (\<lambda>s0.
           ebind (np_mul s0 (Int32, ld)) (\<lambda>r. Inr (Some r)))
      else Inr None)"

definition compute_cstrides :: "int \<Rightarrow> arr2d \<Rightarrow> error + intarr option" where
  "compute_cstrides nvcol stridemap =
     (if nvcol > 1
      then ebind (np_col stridemap (- 1)) (\<lambda>c. Inr (Some c))
      else Inr None)"

text \<open>
  \<open>mats\<close> is the value of \<open>list(set(matmap.flat))\<close>: the distinct objects of
  \<open>matmap\<close>, in the order in which the set happens to iterate, which Python
  does not fix.
\<close>

definition set_listing :: "matrix list \<Rightarrow> matrix list \<Rightarrow> bool" where
  "set_listing mats matmap = (distinct mats \<and> set mats = set matmap)"

text \<open>
  \<open>View.__init__\<close>, with that listing and the conversion rule of the numpy
  in use as arguments. \<open>self._mats[0]\<close> raises \<open>IndexError\<close> when no matrix
  is referenced. The trailing \<open>[None,:]\<close> only adds an axis of length one
  and is left out.
\<close>

definition view_init ::
  "np_cast \<Rightarrow> backend \<Rightarrow> matrix list \<Rightarrow> matrix list \<Rightarrow> arr2d \<Rightarrow> arr2d \<Rightarrow> int list
     \<Rightarrow> string set \<Rightarrow> error + view" where
  "view_init pol be mats matmap rcmap stridemap vshape tgs =
     (case mats of
        [] \<Rightarrow> Inl IndexError
      | m0 # _ \<Rightarrow>
          if list_ex (\<lambda>m. \<not> isinstance m (matrix_cls be)) mats then Inl TypeError
          else if list_ex (\<lambda>m. basedata m \<noteq> basedata m0) mats then Inl TypeError
          else if list_ex (\<lambda>m. dtype m \<noteq> dtype m0) mats then Inl TypeError
          else
            ebind (fill_offsets pol mats matmap) (\<lambda>ol.
            ebind (compute_mapping (fst ol) (snd ol) rcmap) (\<lambda>mp.
            ebind (compute_rstrides (view_nvrow_of vshape) (snd ol) stridemap) (\<lambda>rs.
            ebind (compute_cstrides (view_nvcol_of vshape) stridemap) (\<lambda>cs.
            Inr \<lparr>view_n = length matmap,
                 view_nvrow = view_nvrow_of vshape,
                 view_nvcol = view_nvcol_of vshape,
                 view_mats = mats,
                 view_basedata = basedata m0,
                 view_refdtype = dtype m0,
                 view_mapping = mp,
                 view_rstrides = rs,
                 view_cstrides = cs\<rparr>)))))"

subsection \<open>MPIView\<close>

text \<open>
  \<open>MPIView.__init__\<close> calls two factory methods of its backend,
  \<open>backend.view\<close> and \<open>backend.mpi_matrix\<close>. They are defined by the backends
  and are taken as given here.
\<close>

record backend_methods =
  bm_backend :: backend
  bm_view :: "matrix list \<Rightarrow> arr2d \<Rightarrow> arr2d \<Rightarrow> int list \<Rightarrow> string set \<Rightarrow> error + view"
  bm_mpi_matrix :: "int list \<Rightarrow> string set \<Rightarrow> error + matrix"

record mpiview =
  mv_view :: view
  mv_n :: nat
  mv_nvrow :: int
  mv_nvcol :: int
  mv_mpimat :: matrix

definition mpiview_init ::
  "backend_methods \<Rightarrow> matrix list \<Rightarrow> arr2d \<Rightarrow> arr2d \<Rightarrow> int list \<Rightarrow> string set
     \<Rightarrow> error + mpiview" where
  "mpiview_init bm matmap rcmap stridemap vshape tgs =
     ebind (bm_view bm matmap rcmap stridemap vshape tgs) (\<lambda>v.
     ebind (bm_mpi_matrix bm [view_nvrow v, view_nvcol v, int (view_n v)] tgs) (\<lambda>mm.
     Inr \<lparr>mv_view = v, mv_n = view_n v, mv_nvrow = view_nvrow v,
          mv_nvcol = view_nvcol v, mv_mpimat = mm\<rparr>))"

section \<open>Example objects\<close>

definition ex_backend :: backend where
  "ex_backend = \<lparr>backend_name = ''cuda'', matrix_cls = ''CUDAMatrixBase''\<rparr>"

text \<open>An array at offset 0 with leading dimension 8 and elements of 4 bytes.\<close>

definition ex_mat :: matrix where
  "ex_mat = \<lparr>ident = 1,
             mro = [''CUDAMatrix'', ''CUDAMatrixBase'', ''Matrix'', ''MatrixBase''],
             mbackend = ex_backend, dtype = Float32, itemsize = 4,
             ioshape = [4, 8], tags = {''dense''},
             nrow = 4, ncol = 8, leaddim = 8, leadsubdim = 8,
             basedata = 7, offset = 0\<rparr>"

text \<open>A second array of the same traits and tags in the same allocation.\<close>

definition ex_mat2 :: matrix where
  "ex_mat2 = ex_mat\<lparr>ident := 2, offset := 32\<rparr>"

text \<open>An array with fewer rows, hence other traits.\<close>

definition ex_mat_short :: matrix where
  "ex_mat_short = ex_mat\<lparr>ident := 3, nrow := 2, ioshape := [2, 8], offset := 64\<rparr>"

text \<open>
  What the classes of the examples provide: for a bank, names from
  \<open>Sequence\<close>, \<open>object\<close> and the runtime; for a matrix, names of its class.
\<close>

definition ex_inherited :: "string \<Rightarrow> (bank \<Rightarrow> pyval) option" where
  "ex_inherited a =
     (if a \<in> {''index'', ''count'', ''__contains__'', ''__iter__'', ''__reversed__''}
        then Some (VBankMethod a)
      else if a = ''__class__'' then Some (\<lambda>b. VObject ''MatrixBank'')
      else if a \<in> {''__dict__'', ''__abstractmethods__'', ''__hash__'', ''__repr__''}
        then Some (\<lambda>b. VObject a)
      else None)"

definition ex_mcls :: "matrix \<Rightarrow> string \<Rightarrow> pyval option" where
  "ex_mcls m a =
     (if a = ''_base_tags'' then Some (VTags {''dense''})
      else if a \<in> {''get'', ''set'', ''rslice''} then Some (VMethod a m)
      else if a = ''__doc__'' then Some (VStr ''Matrix abstract base class'')
      else if a = ''__class__'' then Some (VObject (hd (mro m)))
      else None)"

definition ex_bank :: bank where
  "ex_bank = \<lparr>bank_backend = ex_backend, bank_tags = {''dense''},
              bank_mats = [ex_mat, ex_mat2], bank_curr_idx = 0,
              bank_curr_mat = ex_mat\<rparr>"

text \<open>Index and stride maps for a view of one point, \<open>(row, column) = (2, 3)\<close>.\<close>

definition ex_rcmap :: arr2d where
  "ex_rcmap = \<lparr>a_dtype = Int64, a_ncols = 2, a_rows = [[2, 3]]\<rparr>"

definition ex_stridemap :: arr2d where
  "ex_stridemap = \<lparr>a_dtype = Int64, a_ncols = 2, a_rows = [[5, 7]]\<rparr>"

text \<open>Three points, for a view over \<open>ex_mat\<close> and \<open>ex_mat2\<close>.\<close>

definition ex_rcmap3 :: arr2d where
  "ex_rcmap3 = \<lparr>a_dtype = Int64, a_ncols = 2, a_rows = [[2, 3], [0, 1], [3, 7]]\<rparr>"

text \<open>An array with 40000 rows of 65536 elements, and \<open>int32\<close> maps into it.\<close>

definition ex_mat_big :: matrix where
  "ex_mat_big = ex_mat\<lparr>ident := 5, ioshape := [40000, 65536], nrow := 40000, ncol := 65536,
                       leaddim := 65536, leadsubdim := 65536\<rparr>"

definition ex_rcmap32 :: arr2d where
  "ex_rcmap32 = \<lparr>a_dtype = Int32, a_ncols = 2, a_rows = [[32768, 0]]\<rparr>"

definition ex_stridemap32 :: arr2d where
  "ex_stridemap32 = \<lparr>a_dtype = Int32, a_ncols = 2, a_rows = [[32768, 1]]\<rparr>"

text \<open>An array that starts \<open>2^31\<close> elements into its allocation.\<close>

definition ex_mat_far :: matrix where
  "ex_mat_far = ex_mat\<lparr>ident := 6, offset := 2147483648\<rparr>"

text \<open>A map without rows.\<close>

definition ex_no_rows :: arr2d where
  "ex_no_rows = \<lparr>a_dtype = Int64, a_ncols = 2, a_rows = []\<rparr>"

text \<open>
  Arrays that differ from \<open>ex_mat\<close> in the allocation, in the element type,
  and in the backend that made them.
\<close>

definition ex_mat_other_alloc :: matrix where
  "ex_mat_other_alloc = ex_mat\<lparr>ident := 6, basedata := 9\<rparr>"

definition ex_mat_f64 :: matrix where
  "ex_mat_f64 = ex_mat\<lparr>ident := 7, dtype := Float64, itemsize := 8, offset := 128\<rparr>"

definition ex_mat_foreign :: matrix where
  "ex_mat_foreign =
     ex_mat\<lparr>ident := 8, mro := [''OpenCLMatrix'', ''OpenCLMatrixBase'', ''Matrix'', ''MatrixBase'']\<rparr>"

text \<open>The views that \<open>View.__init__\<close> builds from these inputs.\<close>

definition ex_view0 :: view where
  "ex_view0 = \<lparr>view_n = 1, view_nvrow = 1, view_nvcol = 1, view_mats = [ex_mat],
               view_basedata = 7, view_refdtype = Float32,
               view_mapping = (Int64, [19]), view_rstrides = None, view_cstrides = None\<rparr>"

definition ex_view23 :: view where
  "ex_view23 = ex_view0\<lparr>view_nvrow := 2, view_nvcol := 3,
                         view_rstrides := Some (Int64, [40]),
                         view_cstrides := Some (Int64, [7])\<rparr>"

definition ex_view423 :: view where
  "ex_view423 = ex_view0\<lparr>view_nvcol := 3, view_cstrides := Some (Int64, [7])\<rparr>"

definition ex_view_big :: view where
  "ex_view_big = \<lparr>view_n = 1, view_nvrow = 1, view_nvcol = 1, view_mats = [ex_mat_big],
               view_basedata = 7, view_refdtype = Float32,
               view_mapping = (Int32, [- 2147483648]),
               view_rstrides = None, view_cstrides = None\<rparr>"


text \<open>
  A backend for the examples: its \<open>view\<close> factory runs \<open>View.__init__\<close> and
  its \<open>mpi_matrix\<close> factory returns a matrix of the requested shape and tags.
\<close>

definition ex_staging :: "int list \<Rightarrow> string set \<Rightarrow> matrix" where
  "ex_staging shape tgs =
     \<lparr>ident = 100,
      mro = [''CUDAMPIMatrix'', ''CUDAMatrix'', ''CUDAMatrixBase'', ''MPIMatrix'', ''Matrix'',
             ''MatrixBase''],
      mbackend = ex_backend, dtype = Float32, itemsize = 4,
      ioshape = shape, tags = {''dense''} \<union> tgs,
      nrow = shape ! 0, ncol = shape ! 1 * shape ! 2,
      leaddim = shape ! 1 * shape ! 2, leadsubdim = shape ! 2,
      basedata = 11, offset = 0\<rparr>"

definition ex_methods :: backend_methods where
  "ex_methods =
     \<lparr>bm_backend = ex_backend,
      bm_view = (\<lambda>matmap rcmap stridemap vshape tgs.
                  view_init StrictCast ex_backend (remdups matmap) matmap rcmap stridemap
                    vshape tgs),
      bm_mpi_matrix = (\<lambda>shape tgs. Inr (ex_staging shape tgs))\<rparr>"

definition ex_mpiview :: mpiview where
  "ex_mpiview = \<lparr>mv_view = ex_view23, mv_n = 1, mv_nvrow = 2, mv_nvcol = 3,
                 mv_mpimat = ex_staging [2, 3, 1] {''mpi''}\<rparr>"

section \<open>Auxiliary facts\<close>

text \<open>
  The generator tests of the form \<open>any(f(m) != f(xs[0]) for m in xs[1:])\<close>
  find a difference exactly when two members of the list differ.
\<close>

lemma any_differs_from_head:
  assumes "x \<in> set xs" "y \<in> set xs" "f x \<noteq> f y"
  shows "list_ex (\<lambda>m. f m \<noteq> f (hd xs)) (drop 1 xs)"
proof -
  obtain h t where xs: "xs = h # t" using assms(1) by (cases xs) auto
  have "f x \<noteq> f h \<or> f y \<noteq> f h" using assms(3) by metis
  then obtain z where z: "z \<in> set xs" "f z \<noteq> f h" using assms(1,2) by blast
  from z(2) have "z \<noteq> h" by blast
  with z(1) xs have "z \<in> set t" by simp
  with z(2) have "\<exists>m\<in>set t. f m \<noteq> f h" by blast
  then show ?thesis unfolding xs list_ex_iff by simp
qed

lemma all_agree_with_head:
  assumes "\<forall>x\<in>set xs. \<forall>y\<in>set xs. f x = f y"
  shows "\<not> list_ex (\<lambda>m. f m \<noteq> f (hd xs)) (drop 1 xs)"
proof (cases xs)
  case Nil
  then show ?thesis by simp
next
  case (Cons h t)
  have "\<forall>m\<in>set t. f m = f h"
  proof
    fix m assume "m \<in> set t"
    then have "m \<in> set xs" "h \<in> set xs" using Cons by simp_all
    with assms show "f m = f h" by blast
  qed
  then show ?thesis unfolding Cons list_ex_iff by simp
qed

lemma bank_getattr_forward:
  "\<not> bank_defines inh a \<Longrightarrow>
   bank_getattr inh mcls b a = matrix_getattr mcls (bank_curr_mat b) a"
  by (simp add: bank_getattr_def bank_defines_def bank_own_attrs_def bank_instance_attrs_def
        bank_class_attrs_def)

lemma bank_getattr_own:
  "bank_getattr inh mcls b ''__doc__'' = Inr (VStr ''Matrix bank abstract base class'')"
  by (simp add: bank_getattr_def)

text \<open>Two's complement reduction.\<close>

lemma dbits_pos: "0 < dbits d"
  by (cases d) simp_all

lemma wrap_in_range: "in_range d x \<Longrightarrow> wrap d x = x"
  by (cases d) (simp_all add: wrap_def in_range_def)

lemma wrap_add_left: "wrap d (wrap d x + y) = wrap d (x + y)"
proof -
  define H where "H = (2::int) ^ (dbits d - 1)"
  define M where "M = (2::int) ^ dbits d"
  have w: "\<And>z. wrap d z = (z + H) mod M - H"
    by (simp add: wrap_def H_def M_def)
  have e: "wrap d x + y + H = (x + H) mod M + y"
    by (simp add: w)
  have "(wrap d x + y + H) mod M = ((x + H) mod M + y) mod M"
    by (simp only: e)
  also have "\<dots> = (x + H + y) mod M"
    by (rule mod_add_left_eq)
  also have "\<dots> = (x + y + H) mod M"
    by (simp add: ac_simps)
  finally show ?thesis by (simp add: w)
qed

lemma wrap_add_right: "wrap d (x + wrap d y) = wrap d (x + y)"
  using wrap_add_left [of d y x] by (simp add: add.commute)

lemma promote_simps:
  "promote Int32 (promote d Int32) = promote d Int32"
  "promote (promote d Int32) d = promote d Int32"
  by (cases d; simp add: promote_def)+

text \<open>
  The loop over \<open>self._mats\<close> leaves, at every point, the offset and the
  leading dimension of the matrix of that point, as \<open>int32\<close> values.
\<close>

lemma map2_keep_old: "length a = length xs \<Longrightarrow> map2 (\<lambda>x old. old) xs a = a"
  by (induction a xs rule: list_induct2) simp_all

lemma map2_assign_compose:
  "length a = length xs \<Longrightarrow>
   map2 (\<lambda>x old. if x \<in> S then g x else old) xs
     (map2 (\<lambda>x old. if x = m then g m else old) xs a)
   = map2 (\<lambda>x old. if x \<in> insert m S then g x else old) xs a"
  by (induction a xs rule: list_induct2) auto

lemma map2_all_assigned:
  "length a = length xs \<Longrightarrow> set xs \<subseteq> S \<Longrightarrow>
   map2 (\<lambda>x old. if x \<in> S then g x else old) xs a = map g xs"
  by (induction a xs rule: list_induct2) auto

lemma in_range_int32_int64: "in_range Int32 v \<Longrightarrow> in_range Int64 v"
  by (simp add: in_range_def)

lemma to_int32_fits: "in_range Int32 v \<Longrightarrow> to_int32 pol v = Inr v"
  by (cases pol) simp_all

lemma to_int32_Inr: "to_int32 pol v = Inr w \<Longrightarrow> w = wrap Int32 v"
  by (cases pol) (auto simp: wrap_in_range split: if_splits)

lemma to_int32_strict_overflow:
  "\<not> in_range Int32 v \<Longrightarrow> to_int32 StrictCast v = Inl OverflowError"
  by simp

lemma fill_step_Inr:
  assumes "fill_step pol matmap m (a, b) = Inr (a', b')"
  shows "a' = map2 (\<lambda>x old. if x = m then wrap Int32 (offset m) else old) matmap a
       \<and> b' = map2 (\<lambda>x old. if x = m then wrap Int32 (leaddim m) else old) matmap b"
proof -
  from assms obtain w1 w2 where w: "to_int32 pol (offset m) = Inr w1"
      "to_int32 pol (leaddim m) = Inr w2"
    and r: "a' = map2 (\<lambda>x old. if x = m then w1 else old) matmap a"
      "b' = map2 (\<lambda>x old. if x = m then w2 else old) matmap b"
    by (auto simp: fill_step_def assign_where_def ebind_def split: sum.splits)
  from w have "w1 = wrap Int32 (offset m)" "w2 = wrap Int32 (leaddim m)"
    by (simp_all add: to_int32_Inr)
  with r show ?thesis by simp
qed

lemma fill_step_fits:
  assumes "in_range Int32 (offset m)" and "in_range Int32 (leaddim m)"
  shows "fill_step pol matmap m (a, b) =
     Inr (map2 (\<lambda>x old. if x = m then offset m else old) matmap a,
          map2 (\<lambda>x old. if x = m then leaddim m else old) matmap b)"
  using assms by (simp add: fill_step_def assign_where_def ebind_def to_int32_fits)

lemma fill_loop_Inr:
  "length a = length matmap \<Longrightarrow> length b = length matmap \<Longrightarrow>
   fill_loop pol matmap mats (a, b) = Inr (off, ld) \<Longrightarrow>
   off = map2 (\<lambda>x old. if x \<in> set mats then wrap Int32 (offset x) else old) matmap a
   \<and> ld = map2 (\<lambda>x old. if x \<in> set mats then wrap Int32 (leaddim x) else old) matmap b"
proof (induction mats arbitrary: a b)
  case Nil
  then show ?case by (simp add: map2_keep_old)
next
  case (Cons m ms)
  from Cons.prems(3) obtain a' b' where st: "fill_step pol matmap m (a, b) = Inr (a', b')"
    and rest: "fill_loop pol matmap ms (a', b') = Inr (off, ld)"
    by (auto simp: ebind_def split: sum.splits)
  from fill_step_Inr [OF st]
  have a': "a' = map2 (\<lambda>x old. if x = m then wrap Int32 (offset m) else old) matmap a"
    and b': "b' = map2 (\<lambda>x old. if x = m then wrap Int32 (leaddim m) else old) matmap b"
    by simp_all
  have la: "length a' = length matmap" using Cons.prems(1) by (simp add: a')
  have lb: "length b' = length matmap" using Cons.prems(2) by (simp add: b')
  from Cons.IH [OF la lb rest]
  have "off = map2 (\<lambda>x old. if x \<in> set ms then wrap Int32 (offset x) else old) matmap a'"
    and "ld = map2 (\<lambda>x old. if x \<in> set ms then wrap Int32 (leaddim x) else old) matmap b'"
    by simp_all
  then show ?case
    unfolding a' b'
    using Cons.prems(1,2)
      map2_assign_compose [of a matmap "set ms" "\<lambda>x. wrap Int32 (offset x)" m]
      map2_assign_compose [of b matmap "set ms" "\<lambda>x. wrap Int32 (leaddim x)" m]
    by simp
qed

lemma fill_loop_fits:
  "length a = length matmap \<Longrightarrow> length b = length matmap \<Longrightarrow>
   \<forall>m\<in>set mats. in_range Int32 (offset m) \<and> in_range Int32 (leaddim m) \<Longrightarrow>
   fill_loop pol matmap mats (a, b) =
     Inr (map2 (\<lambda>x old. if x \<in> set mats then offset x else old) matmap a,
          map2 (\<lambda>x old. if x \<in> set mats then leaddim x else old) matmap b)"
proof (induction mats arbitrary: a b)
  case Nil
  then show ?case by (simp add: map2_keep_old)
next
  case (Cons m ms)
  let ?a = "map2 (\<lambda>x old. if x = m then offset m else old) matmap a"
  let ?b = "map2 (\<lambda>x old. if x = m then leaddim m else old) matmap b"
  have fm: "in_range Int32 (offset m)" "in_range Int32 (leaddim m)"
    using Cons.prems(3) by simp_all
  have fr: "\<forall>m\<in>set ms. in_range Int32 (offset m) \<and> in_range Int32 (leaddim m)"
    using Cons.prems(3) by simp
  have la: "length ?a = length matmap" using Cons.prems(1) by simp
  have lb: "length ?b = length matmap" using Cons.prems(2) by simp
  have "fill_loop pol matmap (m # ms) (a, b) = fill_loop pol matmap ms (?a, ?b)"
    by (simp add: fill_step_fits [OF fm] ebind_def)
  also have "\<dots> =
     Inr (map2 (\<lambda>x old. if x \<in> set ms then offset x else old) matmap ?a,
          map2 (\<lambda>x old. if x \<in> set ms then leaddim x else old) matmap ?b)"
    by (rule Cons.IH [OF la lb fr])
  also have "\<dots> =
     Inr (map2 (\<lambda>x old. if x \<in> set (m # ms) then offset x else old) matmap a,
          map2 (\<lambda>x old. if x \<in> set (m # ms) then leaddim x else old) matmap b)"
    using Cons.prems(1,2)
      map2_assign_compose [of a matmap "set ms" offset m]
      map2_assign_compose [of b matmap "set ms" leaddim m]
    by simp
  finally show ?case .
qed

lemma fill_offsets_Inr:
  assumes "fill_offsets pol mats matmap = Inr ol" and "set matmap \<subseteq> set mats"
  shows "ol = (map (\<lambda>m. wrap Int32 (offset m)) matmap,
               map (\<lambda>m. wrap Int32 (leaddim m)) matmap)"
proof -
  obtain off ld where ol: "ol = (off, ld)" by (cases ol)
  from assms(1) have "fill_loop pol matmap mats
       (replicate (length matmap) 0, replicate (length matmap) 0) = Inr (off, ld)"
    by (simp add: fill_offsets_def ol)
  from fill_loop_Inr [OF _ _ this] assms(2) show ?thesis
    by (simp add: ol map2_all_assigned)
qed

lemma fill_offsets_fits:
  assumes "set matmap \<subseteq> set mats"
    and "\<forall>m\<in>set mats. in_range Int32 (offset m) \<and> in_range Int32 (leaddim m)"
  shows "fill_offsets pol mats matmap = Inr (map offset matmap, map leaddim matmap)"
  unfolding fill_offsets_def
  using assms by (simp add: fill_loop_fits map2_all_assigned)

text \<open>Array operations on operands of equal length.\<close>

lemma np_binop_same_length:
  "length xs = length ys \<Longrightarrow>
   np_binop f (d1, xs) (d2, ys)
     = Inr (promote d1 d2, map2 (\<lambda>x y. wrap (promote d1 d2) (f x y)) xs ys)"
  by (simp add: np_binop_def broadcast2_def)

lemma np_col_last:
  "0 < a_ncols a \<Longrightarrow>
   np_col a (- 1) = Inr (a_dtype a, map (\<lambda>r. r ! (a_ncols a - 1)) (a_rows a))"
  by (simp add: np_col_def nat_diff_distrib')

lemma compute_mapping_needs_two_cols:
  assumes "compute_mapping off ld rc = Inr mp"
  shows "2 \<le> a_ncols rc"
proof (rule ccontr)
  assume "\<not> 2 \<le> a_ncols rc"
  then have "np_col rc 1 = Inl IndexError" by (simp add: np_col_def)
  with assms show False
    by (simp add: compute_mapping_def ebind_def split: sum.splits)
qed

lemma compute_mapping_eq:
  assumes "length (a_rows rc) = length off" "length ld = length off" "2 \<le> a_ncols rc"
  shows "compute_mapping off ld rc =
     Inr (promote (a_dtype rc) Int32,
          map (\<lambda>i. wrap (promote (a_dtype rc) Int32)
                      (off ! i + (a_rows rc ! i ! 0) * ld ! i + a_rows rc ! i ! 1))
              [0..<length off])"
proof -
  let ?D = "promote (a_dtype rc) Int32"
  let ?c0 = "map (\<lambda>r. r ! 0) (a_rows rc)"
  let ?c1 = "map (\<lambda>r. r ! 1) (a_rows rc)"
  let ?pr = "map2 (\<lambda>x y. wrap ?D (x * y)) ?c0 ld"
  let ?s = "map2 (\<lambda>x y. wrap ?D (x + y)) off ?pr"
  have c0: "np_col rc 0 = Inr (a_dtype rc, ?c0)"
    using assms(3) by (simp add: np_col_def)
  have c1: "np_col rc 1 = Inr (a_dtype rc, ?c1)"
    using assms(3) by (simp add: np_col_def)
  have m: "np_mul (a_dtype rc, ?c0) (Int32, ld) = Inr (?D, ?pr)"
    unfolding np_mul_def using assms by (simp add: np_binop_same_length)
  have a1: "np_add (Int32, off) (?D, ?pr) = Inr (?D, ?s)"
    unfolding np_add_def using assms by (simp add: np_binop_same_length promote_simps)
  have a2: "np_add (?D, ?s) (a_dtype rc, ?c1)
              = Inr (?D, map2 (\<lambda>x y. wrap ?D (x + y)) ?s ?c1)"
    unfolding np_add_def using assms by (simp add: np_binop_same_length promote_simps)
  have "compute_mapping off ld rc = Inr (?D, map2 (\<lambda>x y. wrap ?D (x + y)) ?s ?c1)"
    by (simp only: compute_mapping_def ebind_def c0 c1 m a1 a2 sum.case)
  moreover have "map2 (\<lambda>x y. wrap ?D (x + y)) ?s ?c1 =
          map (\<lambda>i. wrap ?D (off ! i + (a_rows rc ! i ! 0) * ld ! i + a_rows rc ! i ! 1))
              [0..<length off]"
    using assms by (intro nth_equalityI) (simp_all add: wrap_add_left wrap_add_right)
  ultimately show ?thesis by simp
qed

lemma compute_rstrides_none:
  "\<not> 1 < nvrow \<Longrightarrow> compute_rstrides nvrow ld st = Inr None"
  by (simp add: compute_rstrides_def)

lemma compute_cstrides_none:
  "\<not> 1 < nvcol \<Longrightarrow> compute_cstrides nvcol st = Inr None"
  by (simp add: compute_cstrides_def)


lemma compute_rstrides_eq:
  assumes "1 < nvrow" "length (a_rows st) = length ld" "1 \<le> a_ncols st"
  shows "compute_rstrides nvrow ld st =
     Inr (Some (promote (a_dtype st) Int32,
                map (\<lambda>i. wrap (promote (a_dtype st) Int32) (a_rows st ! i ! 0 * ld ! i))
                    [0..<length ld]))"
proof -
  let ?D = "promote (a_dtype st) Int32"
  let ?s0 = "map (\<lambda>r. r ! 0) (a_rows st)"
  have c0: "np_col st 0 = Inr (a_dtype st, ?s0)"
    using assms(3) by (simp add: np_col_def)
  have m: "np_mul (a_dtype st, ?s0) (Int32, ld)
             = Inr (?D, map2 (\<lambda>x y. wrap ?D (x * y)) ?s0 ld)"
    unfolding np_mul_def using assms(2) by (simp add: np_binop_same_length)
  have "map2 (\<lambda>x y. wrap ?D (x * y)) ?s0 ld
          = map (\<lambda>i. wrap ?D (a_rows st ! i ! 0 * ld ! i)) [0..<length ld]"
    using assms(2) by (intro nth_equalityI) simp_all
  with m have m': "np_mul (a_dtype st, ?s0) (Int32, ld)
             = Inr (?D, map (\<lambda>i. wrap ?D (a_rows st ! i ! 0 * ld ! i)) [0..<length ld])"
    by simp
  show ?thesis
    using assms(1) by (simp only: compute_rstrides_def ebind_def c0 m' sum.case if_True)
qed


text \<open>What \<open>View.__init__\<close> has done when it returns, and when it returns.\<close>

lemma view_init_Inr:
  assumes "view_init pol be mats matmap rc st vshape tgs = Inr v"
  shows "mats \<noteq> []
    \<and> (\<exists>ol. fill_offsets pol mats matmap = Inr ol
          \<and> compute_mapping (fst ol) (snd ol) rc = Inr (view_mapping v)
          \<and> compute_rstrides (view_nvrow_of vshape) (snd ol) st = Inr (view_rstrides v))
    \<and> compute_cstrides (view_nvcol_of vshape) st = Inr (view_cstrides v)
    \<and> view_n v = length matmap
    \<and> view_nvrow v = view_nvrow_of vshape
    \<and> view_nvcol v = view_nvcol_of vshape"
  using assms
  by (auto simp: view_init_def ebind_def split: list.splits if_splits sum.splits)

lemma view_init_checks_pass:
  assumes "mats = m0 # ms"
    and "\<forall>m\<in>set mats. isinstance m (matrix_cls be)"
    and "\<forall>m\<in>set mats. basedata m = basedata m0"
    and "\<forall>m\<in>set mats. dtype m = dtype m0"
    and "fill_offsets pol mats matmap = Inr (off, ld)"
    and "compute_mapping off ld rc = Inr mp"
    and "compute_rstrides (view_nvrow_of vshape) ld st = Inr rs"
    and "compute_cstrides (view_nvcol_of vshape) st = Inr cs"
  shows "view_init pol be mats matmap rc st vshape tgs =
      Inr \<lparr>view_n = length matmap, view_nvrow = view_nvrow_of vshape,
           view_nvcol = view_nvcol_of vshape, view_mats = mats,
           view_basedata = basedata m0, view_refdtype = dtype m0,
           view_mapping = mp, view_rstrides = rs, view_cstrides = cs\<rparr>"
proof -
  have 1: "\<not> list_ex (\<lambda>m. \<not> isinstance m (matrix_cls be)) mats"
    using assms(2) by (simp add: list_ex_iff)
  have 2: "\<not> list_ex (\<lambda>m. basedata m \<noteq> basedata m0) mats"
    using assms(3) by (simp add: list_ex_iff)
  have 3: "\<not> list_ex (\<lambda>m. dtype m \<noteq> dtype m0) mats"
    using assms(4) by (simp add: list_ex_iff)
  show ?thesis
    unfolding view_init_def assms(1) [symmetric]
    using 1 2 3 assms(5-8)
    by (simp add: assms(1) ebind_def)
qed

lemma view_init_type_error:
  assumes "mats \<noteq> []"
    and "(\<exists>m\<in>set mats. \<not> isinstance m (matrix_cls be))
         \<or> (\<exists>m1\<in>set mats. \<exists>m2\<in>set mats. basedata m1 \<noteq> basedata m2 \<or> dtype m1 \<noteq> dtype m2)"
  shows "view_init pol be mats matmap rc st vshape tgs = Inl TypeError"
proof -
  obtain m0 ms where mats: "mats = m0 # ms" using assms(1) by (cases mats) auto
  have m0: "m0 \<in> set mats" by (simp add: mats)
  have "list_ex (\<lambda>m. \<not> isinstance m (matrix_cls be)) mats
        \<or> list_ex (\<lambda>m. basedata m \<noteq> basedata m0) mats
        \<or> list_ex (\<lambda>m. dtype m \<noteq> dtype m0) mats"
    unfolding list_ex_iff using assms(2) m0 by metis
  then show ?thesis
    unfolding view_init_def mats [symmetric]
    by (auto simp: mats)
qed

lemma view_init_single:
  assumes "isinstance m (matrix_cls be)"
    and "in_range Int32 (offset m)" and "in_range Int32 (leaddim m)"
    and "compute_mapping [offset m] [leaddim m] rc = Inr mp"
    and "compute_rstrides (view_nvrow_of vshape) [leaddim m] st = Inr rs"
    and "compute_cstrides (view_nvcol_of vshape) st = Inr cs"
  shows "view_init pol be [m] [m] rc st vshape tgs =
      Inr \<lparr>view_n = 1, view_nvrow = view_nvrow_of vshape,
           view_nvcol = view_nvcol_of vshape, view_mats = [m],
           view_basedata = basedata m, view_refdtype = dtype m,
           view_mapping = mp, view_rstrides = rs, view_cstrides = cs\<rparr>"
proof -
  have f: "fill_offsets pol [m] [m] = Inr ([offset m], [leaddim m])"
    using assms(2,3) by (simp add: fill_offsets_fits)
  have "view_init pol be [m] [m] rc st vshape tgs =
      Inr \<lparr>view_n = length [m], view_nvrow = view_nvrow_of vshape,
           view_nvcol = view_nvcol_of vshape, view_mats = [m],
           view_basedata = basedata m, view_refdtype = dtype m,
           view_mapping = mp, view_rstrides = rs, view_cstrides = cs\<rparr>"
    by (rule view_init_checks_pass [OF _ _ _ _ f assms(4-6)]) (simp_all add: assms(1))
  then show ?thesis by simp
qed

text \<open>The example views, evaluated; they come out the same under both conversions.\<close>

lemma ex_listing1: "set_listing [m] [m]"
  by (simp add: set_listing_def)

lemma ex_isinstance:
  "isinstance ex_mat (matrix_cls ex_backend)"
  "isinstance ex_mat2 (matrix_cls ex_backend)"
  "isinstance ex_mat_big (matrix_cls ex_backend)"
  "isinstance ex_mat_far (matrix_cls ex_backend)"
  by (simp_all add: isinstance_def ex_mat_def ex_mat2_def ex_mat_big_def ex_mat_far_def
        ex_backend_def)

lemma ex_fits:
  "in_range Int32 (offset ex_mat)" "in_range Int32 (leaddim ex_mat)"
  "in_range Int32 (offset ex_mat2)" "in_range Int32 (leaddim ex_mat2)"
  "in_range Int32 (offset ex_mat_big)" "in_range Int32 (leaddim ex_mat_big)"
  by (simp_all add: in_range_def ex_mat_def ex_mat2_def ex_mat_big_def)

lemma ex_mapping_small:
  "compute_mapping [offset ex_mat] [leaddim ex_mat] ex_rcmap = Inr (Int64, [19])"
  by (simp add: compute_mapping_eq ex_rcmap_def ex_mat_def promote_def wrap_def)

lemma ex_view0_eval:
  "view_init pol ex_backend [ex_mat] [ex_mat] ex_rcmap ex_stridemap [] tgs = Inr ex_view0"
proof -
  have r: "compute_rstrides (view_nvrow_of []) [leaddim ex_mat] ex_stridemap = Inr None"
    by (simp add: compute_rstrides_def view_nvrow_of_def)
  have k: "compute_cstrides (view_nvcol_of []) ex_stridemap = Inr None"
    by (simp add: compute_cstrides_def view_nvcol_of_def)
  from view_init_single [OF ex_isinstance(1) ex_fits(1,2) ex_mapping_small r k, of pol tgs]
  show ?thesis
    by (simp add: view_nvrow_of_def view_nvcol_of_def ex_mat_def ex_view0_def)
qed

lemma ex_view23_eval:
  "view_init pol ex_backend [ex_mat] [ex_mat] ex_rcmap ex_stridemap [2, 3] tgs = Inr ex_view23"
proof -
  have r: "compute_rstrides (view_nvrow_of [2, 3]) [leaddim ex_mat] ex_stridemap
             = Inr (Some (Int64, [40]))"
    by (simp add: compute_rstrides_eq view_nvrow_of_def ex_stridemap_def ex_mat_def
          promote_def wrap_def)
  have k: "compute_cstrides (view_nvcol_of [2, 3]) ex_stridemap = Inr (Some (Int64, [7]))"
    by (simp add: compute_cstrides_def ebind_def np_col_def view_nvcol_of_def ex_stridemap_def)
  from view_init_single [OF ex_isinstance(1) ex_fits(1,2) ex_mapping_small r k, of pol tgs]
  show ?thesis
    by (simp add: view_nvrow_of_def view_nvcol_of_def ex_mat_def ex_view0_def ex_view23_def)
qed

lemma ex_view423_eval:
  "view_init pol ex_backend [ex_mat] [ex_mat] ex_rcmap ex_stridemap [4, 2, 3] tgs
     = Inr ex_view423"
proof -
  have r: "compute_rstrides (view_nvrow_of [4, 2, 3]) [leaddim ex_mat] ex_stridemap
             = Inr None"
    by (simp add: compute_rstrides_def view_nvrow_of_def)
  have k: "compute_cstrides (view_nvcol_of [4, 2, 3]) ex_stridemap = Inr (Some (Int64, [7]))"
    by (simp add: compute_cstrides_def ebind_def np_col_def view_nvcol_of_def ex_stridemap_def)
  from view_init_single [OF ex_isinstance(1) ex_fits(1,2) ex_mapping_small r k, of pol tgs]
  show ?thesis
    by (simp add: view_nvrow_of_def view_nvcol_of_def ex_mat_def ex_view0_def ex_view423_def)
qed

lemma ex_view_big_eval:
  "view_init pol ex_backend [ex_mat_big] [ex_mat_big] ex_rcmap32 ex_stridemap32 [] tgs
     = Inr ex_view_big"
proof -
  have c: "compute_mapping [offset ex_mat_big] [leaddim ex_mat_big] ex_rcmap32
             = Inr (Int32, [- 2147483648])"
    by (simp add: compute_mapping_eq ex_rcmap32_def ex_mat_big_def ex_mat_def promote_def
          wrap_def)
  have r: "compute_rstrides (view_nvrow_of []) [leaddim ex_mat_big] ex_stridemap32
             = Inr None"
    by (simp add: compute_rstrides_def view_nvrow_of_def)
  have k: "compute_cstrides (view_nvcol_of []) ex_stridemap32 = Inr None"
    by (simp add: compute_cstrides_def view_nvcol_of_def)
  from view_init_single [OF ex_isinstance(3) ex_fits(5,6) c r k, of pol tgs] show ?thesis
    by (simp add: view_nvrow_of_def view_nvcol_of_def ex_mat_big_def ex_mat_def
          ex_view_big_def)
qed


section \<open>Row slices\<close>

text \<open>
  C3. For a parent array \<open>A\<close> and integers \<open>0 \<le> p \<le> q \<le> nrow A\<close> the
  construction of a row slice succeeds, its traits are
  \<open>(q - p, leaddim A, leadsubdim A, dtype A)\<close> and its tags are those of \<open>A\<close>
  with \<open>slice\<close> added; for \<open>p < 0\<close>, \<open>q > nrow A\<close> or \<open>q < p\<close> it fails with
  \<open>ValueError\<close>.
\<close>

theorem rslice_init_range:
  "(0 \<le> p \<and> p \<le> q \<and> q \<le> nrow A \<longrightarrow>
      (\<exists>s. rslice_init be A p q = Inr s
           \<and> rs_traits s = (q - p, leaddim A, leadsubdim A, dtype A)
           \<and> rs_tags s = tags A \<union> {''slice''}))
   \<and> (p < 0 \<or> q > nrow A \<or> q < p \<longrightarrow> rslice_init be A p q = Inl ValueError)"
  by (auto simp: rslice_init_def rs_traits_def)

theorem rslice_init_range_witness:
  "(0::int) \<le> 1 \<and> (1::int) \<le> 3 \<and> 3 \<le> nrow ex_mat
   \<and> (\<exists>s. rslice_init ex_backend ex_mat 1 3 = Inr s
          \<and> rs_traits s = (2, 8, 8, Float32)
          \<and> rs_tags s = {''dense'', ''slice''})
   \<and> 5 > nrow ex_mat
   \<and> rslice_init ex_backend ex_mat 1 5 = Inl ValueError
   \<and> rslice_init ex_backend ex_mat (- 1) 3 = Inl ValueError
   \<and> rslice_init ex_backend ex_mat 3 1 = Inl ValueError"
  using rslice_init_range [of 1 3 ex_mat ex_backend]
    rslice_init_range [of 1 5 ex_mat ex_backend]
    rslice_init_range [of "- 1" 3 ex_mat ex_backend]
    rslice_init_range [of 3 1 ex_mat ex_backend]
  by (simp add: ex_mat_def insert_commute)

section \<open>Banks\<close>

text \<open>
  C8. The row-slice operation of a bank raises \<open>RuntimeError\<close> for every
  bank and every pair of bounds, and the bank is as it was.
\<close>

theorem bank_rslice_raises:
  "fst (bank_rslice b p q) = b \<and> snd (bank_rslice b p q) = Inl RuntimeError"
  by (simp add: bank_rslice_def)

text \<open>
  C4, as the code has it. The construction of a bank fails with \<open>ValueError\<close>
  whenever two members differ in traits or in tags. It succeeds, with a
  length equal to the number of members, whenever all members have the same
  traits and the same tags and the initial index is a valid index of the
  list (\<open>-N \<le> initbank < N\<close>).
\<close>

theorem bank_init_homogeneous:
  "((\<exists>m1\<in>set mats. \<exists>m2\<in>set mats. traits m1 \<noteq> traits m2 \<or> tags m1 \<noteq> tags m2) \<longrightarrow>
      bank_init be mats i tgs = Inl ValueError)
   \<and> ((\<forall>m1\<in>set mats. \<forall>m2\<in>set mats. traits m1 = traits m2 \<and> tags m1 = tags m2)
        \<and> - int (length mats) \<le> i \<and> i < int (length mats) \<longrightarrow>
      (\<exists>b. bank_init be mats i tgs = Inr b \<and> bank_len b = length mats))"
proof (intro conjI impI)
  assume "\<exists>m1\<in>set mats. \<exists>m2\<in>set mats. traits m1 \<noteq> traits m2 \<or> tags m1 \<noteq> tags m2"
  then obtain m1 m2 where m: "m1 \<in> set mats" "m2 \<in> set mats"
    and d: "traits m1 \<noteq> traits m2 \<or> tags m1 \<noteq> tags m2" by blast
  from d show "bank_init be mats i tgs = Inl ValueError"
  proof
    assume "traits m1 \<noteq> traits m2"
    with m have "list_ex (\<lambda>m. traits m \<noteq> traits (hd mats)) (drop 1 mats)"
      by (rule any_differs_from_head [where f = traits])
    then show ?thesis unfolding bank_init_def by (simp only: if_True)
  next
    assume "tags m1 \<noteq> tags m2"
    with m have "list_ex (\<lambda>m. tags m \<noteq> tags (hd mats)) (drop 1 mats)"
      by (rule any_differs_from_head [where f = tags])
    then show ?thesis unfolding bank_init_def by (simp only: if_True if_cancel)
  qed
next
  assume h: "(\<forall>m1\<in>set mats. \<forall>m2\<in>set mats. traits m1 = traits m2 \<and> tags m1 = tags m2)
        \<and> - int (length mats) \<le> i \<and> i < int (length mats)"
  then have "\<forall>x\<in>set mats. \<forall>y\<in>set mats. traits x = traits y" by blast
  then have t: "\<not> list_ex (\<lambda>m. traits m \<noteq> traits (hd mats)) (drop 1 mats)"
    by (rule all_agree_with_head [where f = traits])
  from h have "\<forall>x\<in>set mats. \<forall>y\<in>set mats. tags x = tags y" by blast
  then have g: "\<not> list_ex (\<lambda>m. tags m \<noteq> tags (hd mats)) (drop 1 mats)"
    by (rule all_agree_with_head [where f = tags])
  from h obtain m0 ms where ms: "mats = m0 # ms" by (cases mats) auto
  from h obtain cm where cm: "py_getitem mats i = Inr cm"
    by (cases "0 \<le> i") (auto simp: py_getitem_def)
  have "bank_init be mats i tgs =
          Inr \<lparr>bank_backend = be, bank_tags = tgs \<union> tags m0,
               bank_mats = mats, bank_curr_idx = i, bank_curr_mat = cm\<rparr>"
    unfolding bank_init_def using t g cm by (simp only: if_False) (simp add: ms)
  then show "\<exists>b. bank_init be mats i tgs = Inr b \<and> bank_len b = length mats"
    by (simp add: bank_len_def)
qed

theorem bank_init_homogeneous_witness:
  "(\<exists>b. bank_init ex_backend [ex_mat, ex_mat2] (- 1) {''stage''} = Inr b \<and> bank_len b = 2)
   \<and> bank_init ex_backend [ex_mat, ex_mat2, ex_mat_short] 0 {} = Inl ValueError
   \<and> bank_init ex_backend [ex_mat, ex_mat\<lparr>ident := 4, tags := {''const'', ''dense''}\<rparr>] 0 {}
       = Inl ValueError"
proof -
  have a: "(\<forall>m1\<in>set [ex_mat, ex_mat2]. \<forall>m2\<in>set [ex_mat, ex_mat2].
              traits m1 = traits m2 \<and> tags m1 = tags m2)
           \<and> - int (length [ex_mat, ex_mat2]) \<le> - 1 \<and> - 1 < int (length [ex_mat, ex_mat2])"
    by (simp add: traits_def ex_mat2_def)
  have "traits ex_mat \<noteq> traits ex_mat_short"
    by (simp add: traits_def ex_mat_short_def ex_mat_def)
  then have b: "\<exists>m1\<in>set [ex_mat, ex_mat2, ex_mat_short].
          \<exists>m2\<in>set [ex_mat, ex_mat2, ex_mat_short]. traits m1 \<noteq> traits m2 \<or> tags m1 \<noteq> tags m2"
    by (rule_tac x = ex_mat in bexI, rule_tac x = ex_mat_short in bexI) simp_all
  have "tags ex_mat \<noteq> tags (ex_mat\<lparr>ident := 4, tags := {''const'', ''dense''}\<rparr>)"
    by (simp add: ex_mat_def)
  then have c: "\<exists>m1\<in>set [ex_mat, ex_mat\<lparr>ident := 4, tags := {''const'', ''dense''}\<rparr>].
          \<exists>m2\<in>set [ex_mat, ex_mat\<lparr>ident := 4, tags := {''const'', ''dense''}\<rparr>].
             traits m1 \<noteq> traits m2 \<or> tags m1 \<noteq> tags m2"
    by (rule_tac x = ex_mat in bexI,
        rule_tac x = "ex_mat\<lparr>ident := 4, tags := {''const'', ''dense''}\<rparr>" in bexI) simp_all
  from bank_init_homogeneous [of "[ex_mat, ex_mat2]" ex_backend "- 1" "{''stage''}",
         THEN conjunct2, THEN mp, OF a]
  have 1: "\<exists>b. bank_init ex_backend [ex_mat, ex_mat2] (- 1) {''stage''} = Inr b \<and> bank_len b = 2"
    by (simp add: numeral_2_eq_2)
  note 2 = bank_init_homogeneous [of "[ex_mat, ex_mat2, ex_mat_short]" ex_backend 0 "{}",
         THEN conjunct1, THEN mp, OF b]
  note 3 = bank_init_homogeneous
      [of "[ex_mat, ex_mat\<lparr>ident := 4, tags := {''const'', ''dense''}\<rparr>]" ex_backend 0 "{}",
         THEN conjunct1, THEN mp, OF c]
  from 1 2 3 show ?thesis by blast
qed

text \<open>
  The claim C4 as written promises success for every homogeneous list. One
  array with the initial index 1 is homogeneous, and \<open>mats[initbank]\<close>
  raises \<open>IndexError\<close>.
\<close>

theorem bank_init_bad_initbank_counterexample:
  "bank_init ex_backend [ex_mat] 1 {} = Inl IndexError"
  by (simp add: bank_init_def py_getitem_def)

text \<open>
  C5. For a valid index \<open>i\<close> of a bank, with \<open>m\<close> the member \<open>bank[i]\<close>:
  assigning \<open>i\<close> to \<open>active\<close> raises nothing, \<open>active\<close> then reads \<open>i\<close>, every
  attribute that the normal lookup does not find on the bank (among its
  instance attributes, on its class or on the classes it inherits from) is
  looked up on \<open>m\<close>, the active member is the object \<open>m\<close> of the list itself,
  and the list of members is unchanged.
\<close>

theorem bank_set_active_forwards:
  assumes "bank_getitem b i = Inr m"
  shows "snd (bank_set_active b i) = None
     \<and> bank_active (fst (bank_set_active b i)) = i
     \<and> (\<forall>a. \<not> bank_defines inh a \<longrightarrow>
           bank_getattr inh mcls (fst (bank_set_active b i)) a = matrix_getattr mcls m a)
     \<and> bank_curr_mat (fst (bank_set_active b i)) = m
     \<and> bank_mats (fst (bank_set_active b i)) = bank_mats b"
proof -
  have s: "bank_set_active b i = (b\<lparr>bank_curr_idx := i, bank_curr_mat := m\<rparr>, None)"
    using assms by (simp add: bank_set_active_def bank_getitem_def Let_def)
  show ?thesis unfolding s by (simp add: bank_active_def bank_getattr_forward)
qed

theorem bank_set_active_forwards_witness:
  "bank_getitem ex_bank 1 = Inr ex_mat2
   \<and> snd (bank_set_active ex_bank 1) = None
   \<and> bank_active (fst (bank_set_active ex_bank 1)) = 1
   \<and> \<not> bank_defines ex_inherited ''offset''
   \<and> bank_getattr ex_inherited ex_mcls (fst (bank_set_active ex_bank 1)) ''offset''
       = Inr (VInt 32)
   \<and> \<not> bank_defines ex_inherited ''get''
   \<and> bank_getattr ex_inherited ex_mcls (fst (bank_set_active ex_bank 1)) ''get''
       = Inr (VMethod ''get'' ex_mat2)
   \<and> bank_defines ex_inherited ''__doc__''
   \<and> bank_getattr ex_inherited ex_mcls (fst (bank_set_active ex_bank 1)) ''__doc__''
       = Inr (VStr ''Matrix bank abstract base class'')
   \<and> bank_mats (fst (bank_set_active ex_bank 1)) = [ex_mat, ex_mat2]"
proof -
  have g: "bank_getitem ex_bank 1 = Inr ex_mat2"
    by (simp add: bank_getitem_def py_getitem_def ex_bank_def)
  have n: "\<not> bank_defines ex_inherited ''offset''"
    "\<not> bank_defines ex_inherited ''get''"
    "bank_defines ex_inherited ''__doc__''"
    by (simp_all add: bank_defines_def bank_own_attrs_def bank_instance_attrs_def
          bank_class_attrs_def bank_methods_def ex_inherited_def)
  have o: "matrix_getattr ex_mcls ex_mat2 ''offset'' = Inr (VInt 32)"
    by (simp add: matrix_getattr_def ex_mat2_def)
  have t: "matrix_getattr ex_mcls ex_mat2 ''get'' = Inr (VMethod ''get'' ex_mat2)"
    by (simp add: matrix_getattr_def ex_mcls_def)
  have m: "bank_mats ex_bank = [ex_mat, ex_mat2]" by (simp add: ex_bank_def)
  note f = bank_set_active_forwards [OF g, of ex_inherited ex_mcls]
  from f n(1) o
  have 1: "bank_getattr ex_inherited ex_mcls (fst (bank_set_active ex_bank 1)) ''offset''
       = Inr (VInt 32)" by simp
  from f n(2) t
  have 2: "bank_getattr ex_inherited ex_mcls (fst (bank_set_active ex_bank 1)) ''get''
       = Inr (VMethod ''get'' ex_mat2)" by simp
  from f m have 3: "snd (bank_set_active ex_bank 1) = None
   \<and> bank_active (fst (bank_set_active ex_bank 1)) = 1
   \<and> bank_mats (fst (bank_set_active ex_bank 1)) = [ex_mat, ex_mat2]" by simp
  from g n 1 2 3 bank_getattr_own show ?thesis by blast
qed

text \<open>
  C10. Assigning an index outside \<open>-N .. N - 1\<close> to \<open>active\<close> raises
  \<open>IndexError\<close>; afterwards \<open>active\<close> reads the rejected index, while the
  active member is the one from before the call, and every attribute that
  the normal lookup does not find on the bank is still looked up on it.
\<close>

theorem bank_set_active_out_of_range:
  assumes "i \<ge> int (length (bank_mats b)) \<or> i < - int (length (bank_mats b))"
  shows "snd (bank_set_active b i) = Some IndexError
     \<and> bank_active (fst (bank_set_active b i)) = i
     \<and> bank_curr_mat (fst (bank_set_active b i)) = bank_curr_mat b
     \<and> (\<forall>a. \<not> bank_defines inh a \<longrightarrow>
           bank_getattr inh mcls (fst (bank_set_active b i)) a
             = matrix_getattr mcls (bank_curr_mat b) a)"
proof -
  have "py_getitem (bank_mats b) i = Inl IndexError"
    using assms by (auto simp: py_getitem_def)
  then have s: "bank_set_active b i = (b\<lparr>bank_curr_idx := i\<rparr>, Some IndexError)"
    by (simp add: bank_set_active_def Let_def)
  show ?thesis unfolding s by (simp add: bank_active_def bank_getattr_forward)
qed

theorem bank_set_active_out_of_range_witness:
  "(2::int) \<ge> int (length (bank_mats ex_bank))
   \<and> snd (bank_set_active ex_bank 2) = Some IndexError
   \<and> bank_active (fst (bank_set_active ex_bank 2)) = 2
   \<and> bank_curr_mat (fst (bank_set_active ex_bank 2)) = ex_mat
   \<and> \<not> bank_defines ex_inherited ''offset''
   \<and> bank_getattr ex_inherited ex_mcls (fst (bank_set_active ex_bank 2)) ''offset''
       = Inr (VInt 0)"
proof -
  have r: "(2::int) \<ge> int (length (bank_mats ex_bank))"
    by (simp add: ex_bank_def)
  then have r': "(2::int) \<ge> int (length (bank_mats ex_bank))
       \<or> (2::int) < - int (length (bank_mats ex_bank))" by simp
  have n: "\<not> bank_defines ex_inherited ''offset''"
    by (simp add: bank_defines_def bank_own_attrs_def bank_instance_attrs_def
          bank_class_attrs_def bank_methods_def ex_inherited_def)
  have c: "bank_curr_mat ex_bank = ex_mat" by (simp add: ex_bank_def)
  have o: "matrix_getattr ex_mcls ex_mat ''offset'' = Inr (VInt 0)"
    by (simp add: matrix_getattr_def ex_mat_def)
  from bank_set_active_out_of_range [OF r', of ex_inherited ex_mcls] r n c o
  show ?thesis by simp
qed

section \<open>Views\<close>

text \<open>
  C9. For every view that is constructed, \<open>nvrow\<close> is the second-to-last
  entry of the target shape when the shape has exactly two entries, and 1 for
  every other length of the shape; \<open>nvcol\<close> is the last entry when the shape
  is not empty, and 1 when it is empty.
\<close>

theorem view_multiplicities:
  assumes "view_init pol be mats matmap rcmap stridemap vshape tgs = Inr v"
  shows "(length vshape = 2 \<longrightarrow> view_nvrow v = vshape ! (length vshape - 2))
    \<and> (length vshape \<noteq> 2 \<longrightarrow> view_nvrow v = 1)
    \<and> (vshape \<noteq> [] \<longrightarrow> view_nvcol v = last vshape)
    \<and> (vshape = [] \<longrightarrow> view_nvcol v = 1)"
proof -
  from view_init_Inr [OF assms]
  have r: "view_nvrow v = view_nvrow_of vshape" and c: "view_nvcol v = view_nvcol_of vshape"
    by blast+
  show ?thesis
    by (cases vshape) (simp_all add: r c view_nvrow_of_def view_nvcol_of_def last_conv_nth)
qed

theorem view_multiplicities_witness:
  "view_init StrictCast ex_backend [ex_mat] [ex_mat] ex_rcmap ex_stridemap [2, 3] {}
        = Inr ex_view23
   \<and> view_nvrow ex_view23 = 2 \<and> view_nvcol ex_view23 = 3
   \<and> view_init StrictCast ex_backend [ex_mat] [ex_mat] ex_rcmap ex_stridemap [4, 2, 3] {}
         = Inr ex_view423
   \<and> view_nvrow ex_view423 = 1 \<and> view_nvcol ex_view423 = 3
   \<and> view_init StrictCast ex_backend [ex_mat] [ex_mat] ex_rcmap ex_stridemap [] {}
         = Inr ex_view0
   \<and> view_nvrow ex_view0 = 1 \<and> view_nvcol ex_view0 = 1"
proof -
  from view_multiplicities [OF ex_view23_eval]
  have a: "view_nvrow ex_view23 = 2 \<and> view_nvcol ex_view23 = 3" by simp
  from view_multiplicities [OF ex_view423_eval]
  have b: "view_nvrow ex_view423 = 1 \<and> view_nvcol ex_view423 = 3" by simp
  from view_multiplicities [OF ex_view0_eval]
  have c: "view_nvrow ex_view0 = 1 \<and> view_nvcol ex_view0 = 1" by simp
  from a b c ex_view23_eval [of StrictCast "{}"] ex_view423_eval [of StrictCast "{}"]
    ex_view0_eval [of StrictCast "{}"]
  show ?thesis by blast
qed

text \<open>
  C2, as the code has it, for index and stride maps of signed integers and
  under either conversion rule. With \<open>mats\<close> any listing of the distinct
  arrays of \<open>matmap\<close>: the construction fails with \<open>TypeError\<close> whenever some
  referenced array is not an instance of the backend's matrix class, or two
  referenced arrays differ in the base allocation or in the element type. It
  succeeds whenever at least one array is referenced, all referenced arrays
  are instances of the backend's matrix class and agree on base allocation
  and element type, the offset and the leading dimension of every referenced
  array fit \<open>int32\<close>, the index map has two columns and one row per point,
  and the stride map, where a multiplicity above 1 makes the code read it,
  has a column (and one row per point for the row strides).
\<close>

theorem view_init_validation:
  assumes ls: "set_listing mats matmap"
  shows "((\<exists>m\<in>set matmap. \<not> isinstance m (matrix_cls be))
            \<or> (\<exists>m1\<in>set matmap. \<exists>m2\<in>set matmap.
                  basedata m1 \<noteq> basedata m2 \<or> dtype m1 \<noteq> dtype m2)
          \<longrightarrow> view_init pol be mats matmap rcmap stridemap vshape tgs = Inl TypeError)
    \<and> (matmap \<noteq> []
          \<and> (\<forall>m\<in>set matmap. isinstance m (matrix_cls be))
          \<and> (\<forall>m1\<in>set matmap. \<forall>m2\<in>set matmap.
                basedata m1 = basedata m2 \<and> dtype m1 = dtype m2)
          \<and> (\<forall>m\<in>set matmap. in_range Int32 (offset m) \<and> in_range Int32 (leaddim m))
          \<and> 2 \<le> a_ncols rcmap \<and> length (a_rows rcmap) = length matmap
          \<and> (1 < view_nvrow_of vshape \<longrightarrow>
                1 \<le> a_ncols stridemap \<and> length (a_rows stridemap) = length matmap)
          \<and> (1 < view_nvcol_of vshape \<longrightarrow> 1 \<le> a_ncols stridemap)
          \<longrightarrow> (\<exists>v. view_init pol be mats matmap rcmap stridemap vshape tgs = Inr v))"
proof (intro conjI impI)
  assume bad: "(\<exists>m\<in>set matmap. \<not> isinstance m (matrix_cls be))
            \<or> (\<exists>m1\<in>set matmap. \<exists>m2\<in>set matmap.
                  basedata m1 \<noteq> basedata m2 \<or> dtype m1 \<noteq> dtype m2)"
  have s: "set mats = set matmap" using ls by (simp add: set_listing_def)
  from bad have "set matmap \<noteq> {}" by auto
  with s have ne: "mats \<noteq> []" by auto
  from bad have "(\<exists>m\<in>set mats. \<not> isinstance m (matrix_cls be))
         \<or> (\<exists>m1\<in>set mats. \<exists>m2\<in>set mats. basedata m1 \<noteq> basedata m2 \<or> dtype m1 \<noteq> dtype m2)"
    unfolding s .
  with ne show "view_init pol be mats matmap rcmap stridemap vshape tgs = Inl TypeError"
    by (rule view_init_type_error)
next
  assume good: "matmap \<noteq> []
          \<and> (\<forall>m\<in>set matmap. isinstance m (matrix_cls be))
          \<and> (\<forall>m1\<in>set matmap. \<forall>m2\<in>set matmap.
                basedata m1 = basedata m2 \<and> dtype m1 = dtype m2)
          \<and> (\<forall>m\<in>set matmap. in_range Int32 (offset m) \<and> in_range Int32 (leaddim m))
          \<and> 2 \<le> a_ncols rcmap \<and> length (a_rows rcmap) = length matmap
          \<and> (1 < view_nvrow_of vshape \<longrightarrow>
                1 \<le> a_ncols stridemap \<and> length (a_rows stridemap) = length matmap)
          \<and> (1 < view_nvcol_of vshape \<longrightarrow> 1 \<le> a_ncols stridemap)"
  have g1: "2 \<le> a_ncols rcmap" and g2: "length (a_rows rcmap) = length matmap"
    and g3: "1 < view_nvrow_of vshape \<Longrightarrow>
                1 \<le> a_ncols stridemap \<and> length (a_rows stridemap) = length matmap"
    and g4: "1 < view_nvcol_of vshape \<Longrightarrow> 1 \<le> a_ncols stridemap"
    and g0: "matmap \<noteq> []"
    and g5: "\<forall>m\<in>set matmap. in_range Int32 (offset m) \<and> in_range Int32 (leaddim m)"
    using good by blast+
  have s: "set mats = set matmap" using ls by (simp add: set_listing_def)
  from g0 s have "mats \<noteq> []" by auto
  then obtain m0 ms where mats: "mats = m0 # ms" by (cases mats) auto
  then have m0: "m0 \<in> set matmap" using s by auto
  let ?off = "map offset matmap"
  let ?ld = "map leaddim matmap"
  have f: "fill_offsets pol mats matmap = Inr (?off, ?ld)"
    using s g5 by (simp add: fill_offsets_fits)
  obtain mp where mp: "compute_mapping ?off ?ld rcmap = Inr mp"
    using compute_mapping_eq [of rcmap ?off ?ld] g1 g2 by simp
  obtain rs where rs: "compute_rstrides (view_nvrow_of vshape) ?ld stridemap = Inr rs"
  proof (cases "1 < view_nvrow_of vshape")
    case True
    with g3 compute_rstrides_eq [of "view_nvrow_of vshape" stridemap ?ld] that
    show ?thesis by simp
  next
    case False
    with compute_rstrides_none that show ?thesis by blast
  qed
  obtain cs where cs: "compute_cstrides (view_nvcol_of vshape) stridemap = Inr cs"
  proof (cases "1 < view_nvcol_of vshape")
    case True
    with g4 that show ?thesis
      by (simp add: compute_cstrides_def ebind_def np_col_last)
  next
    case False
    with compute_cstrides_none that show ?thesis by blast
  qed
  have p2: "\<forall>m\<in>set mats. isinstance m (matrix_cls be)"
    using good s by blast
  have p3: "\<forall>m\<in>set mats. basedata m = basedata m0"
    using good s m0 by blast
  have p4: "\<forall>m\<in>set mats. dtype m = dtype m0"
    using good s m0 by blast
  have "view_init pol be mats matmap rcmap stridemap vshape tgs =
      Inr \<lparr>view_n = length matmap, view_nvrow = view_nvrow_of vshape,
           view_nvcol = view_nvcol_of vshape, view_mats = mats,
           view_basedata = basedata m0, view_refdtype = dtype m0,
           view_mapping = mp, view_rstrides = rs, view_cstrides = cs\<rparr>"
    by (rule view_init_checks_pass [OF mats p2 p3 p4 f mp rs cs])
  then show "\<exists>v. view_init pol be mats matmap rcmap stridemap vshape tgs = Inr v"
    by blast
qed

theorem view_init_validation_witness:
  "set_listing [ex_mat2, ex_mat] [ex_mat, ex_mat2, ex_mat]
   \<and> (\<exists>v. view_init StrictCast ex_backend [ex_mat2, ex_mat] [ex_mat, ex_mat2, ex_mat]
             ex_rcmap3 ex_stridemap [] {} = Inr v)
   \<and> set_listing [ex_mat, ex_mat_other_alloc] [ex_mat, ex_mat_other_alloc]
   \<and> view_init StrictCast ex_backend [ex_mat, ex_mat_other_alloc] [ex_mat, ex_mat_other_alloc]
        ex_rcmap3 ex_stridemap [] {} = Inl TypeError
   \<and> set_listing [ex_mat_f64, ex_mat] [ex_mat, ex_mat_f64]
   \<and> view_init StrictCast ex_backend [ex_mat_f64, ex_mat] [ex_mat, ex_mat_f64]
        ex_rcmap3 ex_stridemap [] {} = Inl TypeError
   \<and> set_listing [ex_mat_foreign] [ex_mat_foreign]
   \<and> view_init StrictCast ex_backend [ex_mat_foreign] [ex_mat_foreign]
        ex_rcmap3 ex_stridemap [] {} = Inl TypeError"
proof -
  have l1: "set_listing [ex_mat2, ex_mat] [ex_mat, ex_mat2, ex_mat]"
    by (auto simp: set_listing_def ex_mat2_def ex_mat_def)
  have l2: "set_listing [ex_mat, ex_mat_other_alloc] [ex_mat, ex_mat_other_alloc]"
    by (auto simp: set_listing_def ex_mat_other_alloc_def ex_mat_def)
  have l3: "set_listing [ex_mat_f64, ex_mat] [ex_mat, ex_mat_f64]"
    by (auto simp: set_listing_def ex_mat_f64_def ex_mat_def)
  have g1: "\<forall>m\<in>set [ex_mat, ex_mat2, ex_mat]. isinstance m (matrix_cls ex_backend)"
    by (simp add: ex_isinstance)
  have g2: "\<forall>m1\<in>set [ex_mat, ex_mat2, ex_mat]. \<forall>m2\<in>set [ex_mat, ex_mat2, ex_mat].
                basedata m1 = basedata m2 \<and> dtype m1 = dtype m2"
    by (simp add: ex_mat2_def)
  have g4: "\<forall>m\<in>set [ex_mat, ex_mat2, ex_mat].
              in_range Int32 (offset m) \<and> in_range Int32 (leaddim m)"
    by (simp add: ex_fits)
  have g3: "[ex_mat, ex_mat2, ex_mat] \<noteq> []
          \<and> 2 \<le> a_ncols ex_rcmap3
          \<and> length (a_rows ex_rcmap3) = length [ex_mat, ex_mat2, ex_mat]
          \<and> \<not> 1 < view_nvrow_of [] \<and> \<not> 1 < view_nvcol_of []"
    by (simp add: ex_rcmap3_def view_nvrow_of_def view_nvcol_of_def)
  from g1 g2 g3 g4
  have g: "[ex_mat, ex_mat2, ex_mat] \<noteq> []
          \<and> (\<forall>m\<in>set [ex_mat, ex_mat2, ex_mat]. isinstance m (matrix_cls ex_backend))
          \<and> (\<forall>m1\<in>set [ex_mat, ex_mat2, ex_mat]. \<forall>m2\<in>set [ex_mat, ex_mat2, ex_mat].
                basedata m1 = basedata m2 \<and> dtype m1 = dtype m2)
          \<and> (\<forall>m\<in>set [ex_mat, ex_mat2, ex_mat].
                in_range Int32 (offset m) \<and> in_range Int32 (leaddim m))
          \<and> 2 \<le> a_ncols ex_rcmap3
          \<and> length (a_rows ex_rcmap3) = length [ex_mat, ex_mat2, ex_mat]
          \<and> (1 < view_nvrow_of [] \<longrightarrow>
                1 \<le> a_ncols ex_stridemap
                \<and> length (a_rows ex_stridemap) = length [ex_mat, ex_mat2, ex_mat])
          \<and> (1 < view_nvcol_of [] \<longrightarrow> 1 \<le> a_ncols ex_stridemap)"
    by blast
  have b2: "(\<exists>m\<in>set [ex_mat, ex_mat_other_alloc]. \<not> isinstance m (matrix_cls ex_backend))
            \<or> (\<exists>m1\<in>set [ex_mat, ex_mat_other_alloc]. \<exists>m2\<in>set [ex_mat, ex_mat_other_alloc].
                  basedata m1 \<noteq> basedata m2 \<or> dtype m1 \<noteq> dtype m2)"
    by (rule disjI2, rule_tac x = ex_mat in bexI, rule_tac x = ex_mat_other_alloc in bexI)
       (simp_all add: ex_mat_other_alloc_def ex_mat_def)
  have b3: "(\<exists>m\<in>set [ex_mat, ex_mat_f64]. \<not> isinstance m (matrix_cls ex_backend))
            \<or> (\<exists>m1\<in>set [ex_mat, ex_mat_f64]. \<exists>m2\<in>set [ex_mat, ex_mat_f64].
                  basedata m1 \<noteq> basedata m2 \<or> dtype m1 \<noteq> dtype m2)"
    by (rule disjI2, rule_tac x = ex_mat in bexI, rule_tac x = ex_mat_f64 in bexI)
       (simp_all add: ex_mat_f64_def ex_mat_def)
  have b4: "(\<exists>m\<in>set [ex_mat_foreign]. \<not> isinstance m (matrix_cls ex_backend))
            \<or> (\<exists>m1\<in>set [ex_mat_foreign]. \<exists>m2\<in>set [ex_mat_foreign].
                  basedata m1 \<noteq> basedata m2 \<or> dtype m1 \<noteq> dtype m2)"
    by (rule disjI1) (simp add: isinstance_def ex_mat_foreign_def ex_backend_def)
  note 1 = view_init_validation [OF l1, THEN conjunct2, THEN mp, OF g, of StrictCast]
  note 2 = view_init_validation [OF l2, THEN conjunct1, THEN mp, OF b2, of StrictCast]
  note 3 = view_init_validation [OF l3, THEN conjunct1, THEN mp, OF b3, of StrictCast]
  note 4 = view_init_validation [OF ex_listing1, THEN conjunct1, THEN mp, OF b4, of StrictCast]
  from l1 l2 l3 ex_listing1 1 2 3 4 show ?thesis by blast
qed

text \<open>
  The claim C2 as written promises success whenever the referenced arrays
  agree. A view over no point references no array, and \<open>self._mats[0]\<close>
  raises \<open>IndexError\<close>; a view over three points of one array with an index
  map of two rows fails in the broadcast, with \<open>ValueError\<close>; and under
  numpy 2 a view of an array whose offset is \<open>2^31\<close> fails with
  \<open>OverflowError\<close> when the offset is stored.
\<close>

theorem view_init_no_arrays_counterexample:
  "set_listing [] []
   \<and> view_init StrictCast ex_backend [] [] ex_no_rows ex_no_rows [] {} = Inl IndexError
   \<and> set_listing [ex_mat] [ex_mat, ex_mat, ex_mat]
   \<and> view_init StrictCast ex_backend [ex_mat] [ex_mat, ex_mat, ex_mat]
        (ex_rcmap3\<lparr>a_rows := [[2, 3], [0, 1]]\<rparr>) ex_no_rows [] {} = Inl ValueError
   \<and> set_listing [ex_mat_far] [ex_mat_far]
   \<and> isinstance ex_mat_far (matrix_cls ex_backend)
   \<and> view_init StrictCast ex_backend [ex_mat_far] [ex_mat_far] ex_rcmap ex_stridemap [] {}
        = Inl OverflowError"
proof -
  have f: "fill_offsets StrictCast [ex_mat] [ex_mat, ex_mat, ex_mat]
             = Inr ([0, 0, 0], [8, 8, 8])"
    using ex_fits(1,2) by (simp add: fill_offsets_fits) (simp add: ex_mat_def)
  have 1: "view_init StrictCast ex_backend [ex_mat] [ex_mat, ex_mat, ex_mat]
        (ex_rcmap3\<lparr>a_rows := [[2, 3], [0, 1]]\<rparr>) ex_no_rows [] {} = Inl ValueError"
    by (simp add: view_init_def f ex_isinstance compute_mapping_def ebind_def np_col_def
          np_mul_def np_binop_def broadcast2_def ex_rcmap3_def)
  have o: "\<not> in_range Int32 (offset ex_mat_far)"
    by (simp add: in_range_def ex_mat_far_def)
  have g: "fill_offsets StrictCast [ex_mat_far] [ex_mat_far] = Inl OverflowError"
    using o by (simp add: fill_offsets_def fill_step_def assign_where_def ebind_def)
  have 2: "view_init StrictCast ex_backend [ex_mat_far] [ex_mat_far] ex_rcmap ex_stridemap
             [] {} = Inl OverflowError"
    by (simp add: view_init_def g ex_isinstance ebind_def)
  have 3: "set_listing [] []
     \<and> view_init StrictCast ex_backend [] [] ex_no_rows ex_no_rows [] {} = Inl IndexError
     \<and> set_listing [ex_mat] [ex_mat, ex_mat, ex_mat]"
    by (simp add: set_listing_def view_init_def)
  from 1 2 3 ex_listing1 [of ex_mat_far] ex_isinstance(4) show ?thesis by blast
qed

text \<open>
  C1, as the code has it. For a constructed view whose index map is an array
  of signed integers (\<open>int8\<close>, \<open>int16\<close>, \<open>int32\<close> or \<open>int64\<close>) with one row
  per point, the mapping has one entry per point, its element type is the
  wider of \<open>int32\<close> and the element type of the index map, and the entry of
  point \<open>i\<close> is \<open>offset + rcmap[i,0]*leaddim + rcmap[i,1]\<close> computed in the
  arrays' arithmetic: offset and leading dimension of the matrix of the point
  as stored in \<open>int32\<close>, the sum reduced to the range of the mapping's element
  type. It is the exact value of the formula whenever the offset and the
  leading dimension fit \<open>int32\<close> and the value fits the mapping's element
  type; for one array at offset 0 with leading dimension 8 and the point
  \<open>(2, 3)\<close> it is 19.
\<close>

theorem view_mapping_formula:
  assumes ok: "view_init pol be mats matmap rcmap stridemap vshape tgs = Inr v"
    and ls: "set_listing mats matmap"
    and len: "length (a_rows rcmap) = length matmap"
  shows "fst (view_mapping v) = promote (a_dtype rcmap) Int32
    \<and> length (snd (view_mapping v)) = length matmap
    \<and> (\<forall>i<length matmap.
          snd (view_mapping v) ! i =
            wrap (promote (a_dtype rcmap) Int32)
              (wrap Int32 (offset (matmap ! i))
                 + a_rows rcmap ! i ! 0 * wrap Int32 (leaddim (matmap ! i))
                 + a_rows rcmap ! i ! 1))
    \<and> (\<forall>i<length matmap.
          in_range Int32 (offset (matmap ! i)) \<and> in_range Int32 (leaddim (matmap ! i))
          \<and> in_range (promote (a_dtype rcmap) Int32)
               (offset (matmap ! i) + a_rows rcmap ! i ! 0 * leaddim (matmap ! i)
                  + a_rows rcmap ! i ! 1)
          \<longrightarrow> snd (view_mapping v) ! i =
                offset (matmap ! i) + a_rows rcmap ! i ! 0 * leaddim (matmap ! i)
                  + a_rows rcmap ! i ! 1)"
proof -
  let ?off = "map (\<lambda>m. wrap Int32 (offset m)) matmap"
  let ?ld = "map (\<lambda>m. wrap Int32 (leaddim m)) matmap"
  from view_init_Inr [OF ok] obtain ol where fo: "fill_offsets pol mats matmap = Inr ol"
    and co: "compute_mapping (fst ol) (snd ol) rcmap = Inr (view_mapping v)"
    by blast
  have f: "ol = (?off, ?ld)"
    using ls by (intro fill_offsets_Inr [OF fo]) (simp add: set_listing_def)
  from co have cm: "compute_mapping ?off ?ld rcmap = Inr (view_mapping v)"
    by (simp add: f)
  then have two: "2 \<le> a_ncols rcmap" by (rule compute_mapping_needs_two_cols)
  have "compute_mapping ?off ?ld rcmap =
     Inr (promote (a_dtype rcmap) Int32,
          map (\<lambda>i. wrap (promote (a_dtype rcmap) Int32)
                      (?off ! i + (a_rows rcmap ! i ! 0) * ?ld ! i + a_rows rcmap ! i ! 1))
              [0..<length ?off])"
    by (rule compute_mapping_eq) (simp_all add: len two)
  with cm have mp: "view_mapping v =
     (promote (a_dtype rcmap) Int32,
          map (\<lambda>i. wrap (promote (a_dtype rcmap) Int32)
                      (?off ! i + (a_rows rcmap ! i ! 0) * ?ld ! i + a_rows rcmap ! i ! 1))
              [0..<length ?off])"
    by simp
  show ?thesis
    by (simp add: mp wrap_in_range)
qed

theorem view_mapping_formula_witness:
  "view_init StrictCast ex_backend [ex_mat] [ex_mat] ex_rcmap ex_stridemap [] {} = Inr ex_view0
   \<and> set_listing [ex_mat] [ex_mat]
   \<and> length (a_rows ex_rcmap) = length [ex_mat]
   \<and> offset ex_mat = 0 \<and> leaddim ex_mat = 8 \<and> itemsize ex_mat = 4
   \<and> a_rows ex_rcmap ! 0 = [2, 3]
   \<and> in_range Int32 (offset ex_mat) \<and> in_range Int32 (leaddim ex_mat)
   \<and> in_range (promote (a_dtype ex_rcmap) Int32) (0 + 2 * 8 + 3)
   \<and> snd (view_mapping ex_view0) ! 0 = 19"
proof -
  have n: "length (a_rows ex_rcmap) = length [ex_mat]" by (simp add: ex_rcmap_def)
  have r: "in_range Int32 (offset ex_mat) \<and> in_range Int32 (leaddim ex_mat)
           \<and> in_range (promote (a_dtype ex_rcmap) Int32) (0 + 2 * 8 + 3)"
    by (simp add: in_range_def ex_mat_def ex_rcmap_def promote_def)
  have e: "offset ex_mat = 0 \<and> leaddim ex_mat = 8 \<and> itemsize ex_mat = 4
           \<and> a_rows ex_rcmap ! 0 = [2, 3]"
    by (simp add: ex_mat_def ex_rcmap_def)
  from view_mapping_formula [OF ex_view0_eval ex_listing1 n] ex_view0_eval ex_listing1 n r e
  show ?thesis by simp
qed

text \<open>
  The claim C1 as written gives the exact formula for every view. With an
  \<open>int32\<close> index map, row 32768 of an array with leading dimension 65536 is
  mapped to \<open>-2147483648\<close>, where the formula gives \<open>2147483648\<close>; offset
  and leading dimension of that array fit \<open>int32\<close>, so this is so under
  either conversion rule.
\<close>

theorem view_mapping_int32_counterexample:
  "view_init StrictCast ex_backend [ex_mat_big] [ex_mat_big] ex_rcmap32 ex_stridemap32 [] {}
     = Inr ex_view_big
   \<and> view_init LegacyCast ex_backend [ex_mat_big] [ex_mat_big] ex_rcmap32 ex_stridemap32 [] {}
     = Inr ex_view_big
   \<and> snd (view_mapping ex_view_big) ! 0 = - 2147483648
   \<and> offset ex_mat_big + a_rows ex_rcmap32 ! 0 ! 0 * leaddim ex_mat_big
        + a_rows ex_rcmap32 ! 0 ! 1 = 2147483648"
proof -
  have a: "snd (view_mapping ex_view_big) ! 0 = - 2147483648"
    by (simp add: ex_view_big_def)
  have b: "offset ex_mat_big + a_rows ex_rcmap32 ! 0 ! 0 * leaddim ex_mat_big
        + a_rows ex_rcmap32 ! 0 ! 1 = 2147483648"
    by (simp add: ex_mat_big_def ex_mat_def ex_rcmap32_def)
  from ex_view_big_eval [of StrictCast "{}"] ex_view_big_eval [of LegacyCast "{}"] a b
  show ?thesis by blast
qed




section \<open>Distributed views\<close>

text \<open>
  C7. \<open>MPIView.__init__\<close> returns exactly when the backend's view factory,
  called on the same matrix, index and stride maps, shape and tags, returns a
  view, and the same backend's \<open>mpi_matrix\<close> factory, called on the shape
  \<open>(nvrow, nvcol, n)\<close> of that view and on the given tags, returns a staging
  matrix; the result holds that view, its \<open>n\<close>, \<open>nvrow\<close> and \<open>nvcol\<close>, and
  that matrix.
\<close>

theorem mpiview_init_builds:
  "(mpiview_init bm matmap rcmap stridemap vshape tgs = Inr mv) =
     (bm_view bm matmap rcmap stridemap vshape tgs = Inr (mv_view mv)
      \<and> mv_n mv = view_n (mv_view mv)
      \<and> mv_nvrow mv = view_nvrow (mv_view mv)
      \<and> mv_nvcol mv = view_nvcol (mv_view mv)
      \<and> bm_mpi_matrix bm [mv_nvrow mv, mv_nvcol mv, int (mv_n mv)] tgs = Inr (mv_mpimat mv))"
  by (cases mv) (auto simp: mpiview_init_def ebind_def split: sum.splits)

theorem mpiview_init_builds_witness:
  "bm_view ex_methods [ex_mat] ex_rcmap ex_stridemap [2, 3] {''mpi''} = Inr ex_view23
   \<and> bm_mpi_matrix ex_methods [2, 3, 1] {''mpi''} = Inr (ex_staging [2, 3, 1] {''mpi''})
   \<and> mpiview_init ex_methods [ex_mat] ex_rcmap ex_stridemap [2, 3] {''mpi''} = Inr ex_mpiview
   \<and> ioshape (mv_mpimat ex_mpiview) = [2, 3, 1]
   \<and> ''mpi'' \<in> tags (mv_mpimat ex_mpiview)
   \<and> mbackend (mv_mpimat ex_mpiview) = bm_backend ex_methods"
proof -
  have v: "bm_view ex_methods [ex_mat] ex_rcmap ex_stridemap [2, 3] {''mpi''} = Inr ex_view23"
    by (simp add: ex_methods_def ex_view23_eval)
  have m: "bm_mpi_matrix ex_methods [2, 3, 1] {''mpi''} = Inr (ex_staging [2, 3, 1] {''mpi''})"
    by (simp add: ex_methods_def)
  have f: "mv_view ex_mpiview = ex_view23" "mv_n ex_mpiview = 1" "mv_nvrow ex_mpiview = 2"
    "mv_nvcol ex_mpiview = 3" "mv_mpimat ex_mpiview = ex_staging [2, 3, 1] {''mpi''}"
    by (simp_all add: ex_mpiview_def)
  have g: "view_n ex_view23 = 1" "view_nvrow ex_view23 = 2" "view_nvcol ex_view23 = 3"
    by (simp_all add: ex_view23_def ex_view0_def)
  have p: "bm_view ex_methods [ex_mat] ex_rcmap ex_stridemap [2, 3] {''mpi''}
             = Inr (mv_view ex_mpiview)
      \<and> mv_n ex_mpiview = view_n (mv_view ex_mpiview)
      \<and> mv_nvrow ex_mpiview = view_nvrow (mv_view ex_mpiview)
      \<and> mv_nvcol ex_mpiview = view_nvcol (mv_view ex_mpiview)
      \<and> bm_mpi_matrix ex_methods
          [mv_nvrow ex_mpiview, mv_nvcol ex_mpiview, int (mv_n ex_mpiview)] {''mpi''}
          = Inr (mv_mpimat ex_mpiview)"
    by (simp add: f g v m)
  note r = mpiview_init_builds [THEN iffD2, OF p]
  have s: "ioshape (mv_mpimat ex_mpiview) = [2, 3, 1]
   \<and> ''mpi'' \<in> tags (mv_mpimat ex_mpiview)
   \<and> mbackend (mv_mpimat ex_mpiview) = bm_backend ex_methods"
    by (simp add: f ex_staging_def ex_methods_def)
  from v m r s show ?thesis by blast
qed

end
